theory Spec2Isabelle
  imports Main
begin

section \<open>FooterPagination: the pagination arithmetic\<close>

text \<open>
  The component receives \<open>page\<close>, \<open>total\<close> and \<open>itemsPerPage\<close> as JavaScript numbers,
  that is, as doubles. The model covers the numbers that are whole: an \<open>int\<close> stands for
  the double of that value (every whole number up to \<open>2\<^sup>5\<^sup>3\<close> in magnitude is a double,
  beyond that only those with at most 53 significant bits). A result of the arithmetic is
  a \<open>jsnum\<close>: a whole number again, \<open>Infinity\<close>, \<open>-Infinity\<close> or \<open>NaN\<close>.
\<close>

datatype jsnum = Num int | Infinity | NegInfinity | NaN

text \<open>\<open>Number.MAX_SAFE_INTEGER\<close> is \<open>2\<^sup>5\<^sup>3 - 1\<close>, and \<open>Number.MIN_SAFE_INTEGER\<close> its negative.\<close>

definition MAX_SAFE_INTEGER :: int where "MAX_SAFE_INTEGER = 9007199254740991"

subsection \<open>Rounding to a double\<close>

text \<open>The number of bits of a natural number.\<close>

fun bit_length :: "nat \<Rightarrow> nat" where
  "bit_length n = (if n = 0 then 0 else Suc (bit_length (n div 2)))"

declare bit_length.simps [simp del]

text \<open>The quotient \<open>n / d\<close> rounded to the nearest whole number, a tie going to the even one.\<close>

definition round_half_even :: "nat \<Rightarrow> nat \<Rightarrow> nat" where
  "round_half_even n d =
     (let q = n div d; r = n mod d
      in if d < 2 * r \<or> (2 * r = d \<and> odd q) then q + 1 else q)"

text \<open>
  A natural number below \<open>2\<^sup>5\<^sup>3\<close> is a double. A larger one of \<open>53 + e\<close> bits lies
  between two doubles that are multiples of \<open>2\<^sup>e\<close>, and is rounded to the nearer one (to
  the one with the even multiplier when it is half way).
\<close>

definition round_nat :: "nat \<Rightarrow> nat" where
  "round_nat m =
     (if m < 2 ^ 53 then m
      else let e = bit_length m - 53 in round_half_even m (2 ^ e) * 2 ^ e)"

text \<open>
  The sum, difference or product of two whole doubles is a whole number \<open>n\<close>; JavaScript
  delivers the double nearest to it, and an infinity when that is \<open>2\<^sup>1\<^sup>0\<^sup>2\<^sup>4\<close> or more.
\<close>

definition to_double :: "int \<Rightarrow> jsnum" where
  "to_double n =
     (let v = round_nat (nat \<bar>n\<bar>)
      in if 2 ^ 1024 \<le> v then (if n < 0 then NegInfinity else Infinity)
         else Num (sgn n * int v))"

text \<open>\<open>x + b\<close> for a result \<open>x\<close> and a whole number \<open>b\<close>.\<close>

fun js_plus :: "jsnum \<Rightarrow> int \<Rightarrow> jsnum" where
  "js_plus (Num a) b = to_double (a + b)"
| "js_plus Infinity b = Infinity"
| "js_plus NegInfinity b = NegInfinity"
| "js_plus NaN b = NaN"

text \<open>\<open>Math.min(x, b)\<close>.\<close>

fun js_min :: "jsnum \<Rightarrow> int \<Rightarrow> jsnum" where
  "js_min (Num a) b = Num (min a b)"
| "js_min Infinity b = Num b"
| "js_min NegInfinity b = NegInfinity"
| "js_min NaN b = NaN"

text \<open>
  The quotient \<open>a / b\<close> of two positive whole doubles is rounded to 53 significant bits:
  with \<open>e\<close> the exponent for which \<open>a / (b * 2\<^sup>e)\<close> lies between \<open>2\<^sup>5\<^sup>2\<close> and \<open>2\<^sup>5\<^sup>3\<close>, it
  is \<open>q * 2\<^sup>e\<close> for the rounded multiplier \<open>q\<close>. \<open>Math.trunc\<close> drops the fraction of
  that. (A quotient too small for 53 bits is below 1 however it is rounded.)
\<close>

definition trunc_rounded_quotient :: "nat \<Rightarrow> nat \<Rightarrow> nat" where
  "trunc_rounded_quotient a b =
     (if a = 0 then 0
      else
        let k = int (bit_length a) - int (bit_length b);
            e = (if a * 2 ^ nat (- k) < b * 2 ^ nat k then k - 53 else k - 52);
            q = round_half_even (a * 2 ^ nat (- e)) (b * 2 ^ nat e)
        in if 0 \<le> e then q * 2 ^ nat e else q div 2 ^ nat (- e))"

text \<open>
  \<open>Math.trunc(x / b)\<close> for a result \<open>x\<close> and a whole number \<open>b\<close>. A division by zero
  gives an infinity, or \<open>NaN\<close> for \<open>0 / 0\<close>, and \<open>Math.trunc\<close> keeps those values.
\<close>

fun trunc_quotient :: "jsnum \<Rightarrow> int \<Rightarrow> jsnum" where
  "trunc_quotient (Num a) b =
     (if b = 0 then (if a = 0 then NaN else if 0 < a then Infinity else NegInfinity)
      else Num (sgn a * sgn b * int (trunc_rounded_quotient (nat \<bar>a\<bar>) (nat \<bar>b\<bar>))))"
| "trunc_quotient Infinity b = (if b < 0 then NegInfinity else Infinity)"
| "trunc_quotient NegInfinity b = (if b < 0 then Infinity else NegInfinity)"
| "trunc_quotient NaN b = NaN"

text \<open>The comparison \<open>page >= totalPages\<close>; every comparison with \<open>NaN\<close> is false.\<close>

fun js_ge :: "int \<Rightarrow> jsnum \<Rightarrow> bool" where
  "js_ge p (Num n) = (p \<ge> n)"
| "js_ge p Infinity = False"
| "js_ge p NegInfinity = True"
| "js_ge p NaN = False"

subsection \<open>The component\<close>

text \<open>
  What the component renders from its numbers: the legend
  "Showing startCount+1 - endCount of total" (present when \<open>Boolean(total)\<close>), and the
  \<open>disabled\<close> attribute of the two buttons.
\<close>

record pagination_view =
  legend :: "(jsnum \<times> jsnum \<times> int) option"
  totalPages :: jsnum
  prevDisabled :: bool
  nextDisabled :: bool

definition FooterPagination :: "int \<Rightarrow> int \<Rightarrow> int \<Rightarrow> pagination_view" where
  "FooterPagination page total' itemsPerPage =
     (let startCount = to_double (page * itemsPerPage);
          endCount = js_min (js_plus startCount itemsPerPage) total';
          totalPages = trunc_quotient (to_double (total' - 1)) itemsPerPage;
          prevDisabled = (page \<le> 0);
          nextDisabled = js_ge page totalPages
      in \<lparr> legend = (if total' \<noteq> 0 then Some (js_plus startCount 1, endCount, total') else None),
           totalPages = totalPages,
           prevDisabled = prevDisabled,
           nextDisabled = nextDisabled \<rparr>)"

section \<open>useFocusTrap: the stack of focus traps\<close>

text \<open>
  DOM nodes are identified by numbers. The parts of the page the hook reads are gathered
  in \<open>focus_dom\<close>: the matches of the focusable selector inside a container (in document
  order), whether an element's bounding rectangle has zero width and height, whether an
  element is hidden by its computed style or its \<open>hidden\<close> attribute, and the chain of
  \<open>parentElement\<close>s above an element.
\<close>

type_synonym element = nat

record focus_dom =
  querySelectorAll :: "element \<Rightarrow> element list"
  zeroSize :: "element \<Rightarrow> bool"
  hiddenStyle :: "element \<Rightarrow> bool"
  ancestors :: "element \<Rightarrow> element list"

text \<open>
  \<open>isElementVisible\<close>: false for a zero-sized element; otherwise the loop walks from the
  element up its parents and fails at the first hidden one.
\<close>

definition isElementVisible :: "focus_dom \<Rightarrow> element \<Rightarrow> bool" where
  "isElementVisible d el =
     (if zeroSize d el then False
      else list_all (\<lambda>currentElement. \<not> hiddenStyle d currentElement) (el # ancestors d el))"

definition getFocusableElements :: "focus_dom \<Rightarrow> element \<Rightarrow> element list" where
  "getFocusableElements d c = filter (isElementVisible d) (querySelectorAll d c)"

text \<open>
  The mutable state shared by all traps: the module-level array \<open>activeFocusTraps\<close>,
  \<open>document.activeElement\<close>, and which elements of the page take the focus at present
  (\<open>canFocus\<close>: an element that is disabled, hidden or detached does not). A DOM event
  carries its key, its modifier, the composition flag of the native event and whether
  \<open>preventDefault\<close> was called.
\<close>

record focus_state =
  activeFocusTraps :: "element list"
  activeElement :: "element option"
  canFocus :: "element \<Rightarrow> bool"

record event =
  key :: string
  shiftKey :: bool
  isComposing :: bool
  defaultPrevented :: bool

definition preventDefault :: "event \<Rightarrow> event" where
  "preventDefault e = e\<lparr>defaultPrevented := True\<rparr>"

text \<open>
  \<open>el.focus()\<close> moves the focus to the element if it takes the focus, and does nothing
  otherwise.
\<close>

definition focus :: "element \<Rightarrow> focus_state \<Rightarrow> focus_state" where
  "focus el s = (if canFocus s el then s\<lparr>activeElement := Some el\<rparr> else s)"

record FocusTrapOptions =
  initialFocus :: bool
  restoreFocus :: bool
  delayMs :: "int option"

text \<open>
  One run of the hook's effect owns a closure: its container, the flag \<open>trapActive\<close>,
  the pending timeout, and the two refs of the hook (the cached focusable elements and the
  element focused before).
\<close>

record focus_trap =
  container :: element
  trapActive :: bool
  timeoutId :: bool
  focusableElementsRef :: "element list"
  previousFocusRef :: "element option"

definition activateFocusTrap ::
  "focus_dom \<Rightarrow> FocusTrapOptions \<Rightarrow> focus_trap \<Rightarrow> focus_state \<Rightarrow> focus_trap \<times> focus_state" where
  "activateFocusTrap d opts t s =
     (let els = getFocusableElements d (container t);
          t' = t\<lparr>focusableElementsRef := els, trapActive := True\<rparr>;
          s' = s\<lparr>activeFocusTraps := activeFocusTraps s @ [container t]\<rparr>
      in case els of
           [] \<Rightarrow> (t', s')
         | firstElement # _ \<Rightarrow> if initialFocus opts then (t', focus firstElement s') else (t', s'))"

definition refreshFocusableElements :: "focus_dom \<Rightarrow> focus_trap \<Rightarrow> focus_trap" where
  "refreshFocusableElements d t = t\<lparr>focusableElementsRef := getFocusableElements d (container t)\<rparr>"

text \<open>The mutation observer refreshes the cache only once the trap is active.\<close>

definition onMutation :: "focus_dom \<Rightarrow> focus_trap \<Rightarrow> focus_trap" where
  "onMutation d t = (if trapActive t then refreshFocusableElements d t else t)"

text \<open>
  The body of the effect. It installs nothing (\<open>None\<close>) when the hook is inactive or the
  container ref is empty; otherwise it activates the trap at once, or leaves a timer
  pending when a positive delay is given.
\<close>

definition useFocusTrap ::
  "focus_dom \<Rightarrow> FocusTrapOptions \<Rightarrow> bool \<Rightarrow> element option \<Rightarrow> element list \<Rightarrow> element option
     \<Rightarrow> focus_state \<Rightarrow> (focus_trap \<times> focus_state) option" where
  "useFocusTrap d opts isActive containerRef cached previous s =
     (case containerRef of
        None \<Rightarrow> None
      | Some c \<Rightarrow>
          if \<not> isActive then None
          else
            let t = \<lparr> container = c, trapActive = False, timeoutId = False,
                      focusableElementsRef = cached,
                      previousFocusRef = (if restoreFocus opts then activeElement s else previous) \<rparr>
            in case delayMs opts of
                 Some ms \<Rightarrow> if 0 < ms then Some (t\<lparr>timeoutId := True\<rparr>, s)
                            else Some (activateFocusTrap d opts t s)
               | None \<Rightarrow> Some (activateFocusTrap d opts t s))"

text \<open>The timer of a delayed trap fires: the trap is activated then.\<close>

definition onTimeout ::
  "focus_dom \<Rightarrow> FocusTrapOptions \<Rightarrow> focus_trap \<Rightarrow> focus_state \<Rightarrow> focus_trap \<times> focus_state" where
  "onTimeout d opts t s =
     (if timeoutId t then activateFocusTrap d opts (t\<lparr>timeoutId := False\<rparr>) s else (t, s))"

text \<open>
  \<open>activeFocusTraps[activeFocusTraps.length - 1]\<close> is \<open>undefined\<close> on the empty array.
\<close>

definition topTrap :: "focus_state \<Rightarrow> element option" where
  "topTrap s = (if activeFocusTraps s = [] then None else Some (last (activeFocusTraps s)))"

text \<open>The keydown listener of one trap, on the event and the shared state.\<close>

definition handleKeyDown :: "focus_trap \<Rightarrow> event \<times> focus_state \<Rightarrow> event \<times> focus_state" where
  "handleKeyDown t es =
     (let e = fst es; s = snd es in
      if key e \<noteq> ''Tab'' then (e, s)
      else if \<not> trapActive t \<or> topTrap s \<noteq> Some (container t) then (e, s)
      else case focusableElementsRef t of
             [] \<Rightarrow> (e, s)
           | firstElement # _ \<Rightarrow>
               let lastElement = last (focusableElementsRef t) in
               if shiftKey e \<and> activeElement s = Some firstElement
                 then (preventDefault e, focus lastElement s)
               else if \<not> shiftKey e \<and> activeElement s = Some lastElement
                 then (preventDefault e, focus firstElement s)
               else (e, s))"

text \<open>
  The cleanup of the effect. \<open>indexOf\<close> finds the first occurrence of the container and
  \<open>splice(index, 1)\<close> removes that one entry, which is \<open>remove1\<close>.
\<close>

definition cleanup :: "FocusTrapOptions \<Rightarrow> focus_trap \<Rightarrow> focus_state \<Rightarrow> focus_state" where
  "cleanup opts t s =
     (let s' = (if trapActive t
                then s\<lparr>activeFocusTraps := remove1 (container t) (activeFocusTraps s)\<rparr>
                else s)
      in case previousFocusRef t of
           Some el \<Rightarrow> if restoreFocus opts then focus el s' else s'
         | None \<Rightarrow> s')"

text \<open>
  A keydown on the document reaches the listener of every installed trap, one after the
  other.
\<close>

definition dispatchKeyDown :: "focus_trap list \<Rightarrow> event \<times> focus_state \<Rightarrow> event \<times> focus_state" where
  "dispatchKeyDown ts es = fold handleKeyDown ts es"

text \<open>
  The life of several traps: closures are numbered, an \<open>Activate\<close> is the moment
  \<open>activateFocusTrap\<close> of a closure runs (at once, or when its timer fires), a
  \<open>Cleanup\<close> is the cleanup of its effect, after which the next run of that effect starts
  from a fresh closure (\<open>trapActive = false\<close>).
\<close>

type_synonym trap_id = nat

datatype trap_event = Activate trap_id | Cleanup trap_id

record trap_system =
  traps :: "trap_id \<Rightarrow> focus_trap"
  shared :: focus_state

fun step :: "focus_dom \<Rightarrow> FocusTrapOptions \<Rightarrow> trap_event \<Rightarrow> trap_system \<Rightarrow> trap_system" where
  "step d opts (Activate i) sys =
     (let r = activateFocusTrap d opts (traps sys i) (shared sys)
      in \<lparr> traps = (traps sys)(i := fst r), shared = snd r \<rparr>)"
| "step d opts (Cleanup i) sys =
     \<lparr> traps = (traps sys)(i := (traps sys i)\<lparr>trapActive := False, timeoutId := False\<rparr>),
       shared = cleanup opts (traps sys i) (shared sys) \<rparr>"

definition run :: "focus_dom \<Rightarrow> FocusTrapOptions \<Rightarrow> trap_event list \<Rightarrow> trap_system \<Rightarrow> trap_system" where
  "run d opts evs sys = fold (step d opts) evs sys"

text \<open>The page before any trap: an empty stack, closures not yet active.\<close>

definition initial_system ::
  "(trap_id \<Rightarrow> element) \<Rightarrow> element option \<Rightarrow> (element \<Rightarrow> bool) \<Rightarrow> trap_system" where
  "initial_system containerOf focused accepts =
     \<lparr> traps = (\<lambda>i. \<lparr> container = containerOf i, trapActive = False, timeoutId = False,
                        focusableElementsRef = [], previousFocusRef = None \<rparr>),
       shared = \<lparr> activeFocusTraps = [], activeElement = focused, canFocus = accepts \<rparr> \<rparr>"





text \<open>
  A small page for the concrete runs below: container \<open>c\<close> holds the two focusable
  elements \<open>10 c + 1\<close> and \<open>10 c + 2\<close>, except container 3, which holds none; nothing is
  hidden.
\<close>

definition example_dom :: focus_dom where
  "example_dom = \<lparr> querySelectorAll = (\<lambda>c. if c = 3 then [] else [10 * c + 1, 10 * c + 2]),
                    zeroSize = (\<lambda>_. False), hiddenStyle = (\<lambda>_. False), ancestors = (\<lambda>_. []) \<rparr>"

text \<open>A page state in which every element takes the focus.\<close>

definition page :: "element list \<Rightarrow> element option \<Rightarrow> focus_state" where
  "page stack focused = \<lparr> activeFocusTraps = stack, activeElement = focused, canFocus = (\<lambda>_. True) \<rparr>"

definition default_options :: FocusTrapOptions where
  "default_options = \<lparr> initialFocus = False, restoreFocus = False, delayMs = None \<rparr>"

definition tab_key :: event where
  "tab_key = \<lparr> key = ''Tab'', shiftKey = False, isComposing = False, defaultPrevented = False \<rparr>"

definition trap_A :: focus_trap where
  "trap_A = \<lparr> container = 1, trapActive = True, timeoutId = False,
              focusableElementsRef = [11, 12], previousFocusRef = None \<rparr>"

definition trap_B :: focus_trap where
  "trap_B = \<lparr> container = 2, trapActive = True, timeoutId = False,
              focusableElementsRef = [21, 22], previousFocusRef = None \<rparr>"

definition trap_C :: focus_trap where
  "trap_C = \<lparr> container = 3, trapActive = False, timeoutId = False,
              focusableElementsRef = [], previousFocusRef = None \<rparr>"

section \<open>Numbers as strings\<close>

text \<open>
  \<open>String(n)\<close> and the template literal \<open>`${n}`\<close> print an integer in decimal, with a
  minus sign when it is negative.
\<close>

definition digit_char :: "nat \<Rightarrow> char" where
  "digit_char n = ''0123456789'' ! n"

fun digits :: "nat \<Rightarrow> string" where
  "digits n = (if n < 10 then [digit_char n] else digits (n div 10) @ [digit_char (n mod 10)])"

declare digits.simps [simp del]

definition String :: "int \<Rightarrow> string" where
  "String n = (if n < 0 then CHR ''-'' # digits (nat (- n)) else digits (nat n))"

text \<open>\<open>a || b\<close> on strings: the empty string is falsy.\<close>

definition or_else :: "string \<Rightarrow> string \<Rightarrow> string" where
  "or_else a b = (if a = [] then b else a)"

section \<open>useStackedModal: the backdrop of a stacked modal\<close>

text \<open>
  What the hook sees of the page: whether there is a \<open>document\<close> at all, the elements
  matching \<open>.modal-backdrop\<close> in document order, and the inline style of every element
  (a property that is not set reads as the empty string).
\<close>

record modal_dom =
  hasDocument :: bool
  backdrops :: "element list"
  style :: "element \<Rightarrow> string \<Rightarrow> string"

definition setStyle :: "element \<Rightarrow> string \<Rightarrow> string \<Rightarrow> modal_dom \<Rightarrow> modal_dom" where
  "setStyle el prop v d = d\<lparr>style := (style d)(el := (style d el)(prop := v))\<rparr>"

definition BASE_MODAL_Z_INDEX :: int where "BASE_MODAL_Z_INDEX = 1050"
definition BASE_BACKDROP_Z_INDEX :: int where "BASE_BACKDROP_Z_INDEX = 1040"
definition Z_INDEX_INCREMENT :: int where "Z_INDEX_INCREMENT = 10"

record z_indexes =
  modal :: int
  backdrop :: int

text \<open>The state and the refs of one \<open>useStackedModal\<close>.\<close>

record stacked_modal =
  shouldRenderBackdrop :: bool
  zIndexes :: z_indexes
  originalBackdropZIndexRef :: "string option"
  backdropRef :: "element option"
  originalBackdropOpacityRef :: "string option"

definition initial_stacked_modal :: "bool \<Rightarrow> stacked_modal" where
  "initial_stacked_modal isStacked =
     \<lparr> shouldRenderBackdrop = (\<not> isStacked),
       zIndexes = \<lparr> modal = BASE_MODAL_Z_INDEX, backdrop = BASE_BACKDROP_Z_INDEX \<rparr>,
       originalBackdropZIndexRef = None,
       backdropRef = None,
       originalBackdropOpacityRef = None \<rparr>"

definition adjustBackdrop :: "stacked_modal \<times> modal_dom \<Rightarrow> stacked_modal \<times> modal_dom" where
  "adjustBackdrop st =
     (let h = fst st; d = snd st;
          stackedModalZIndex = BASE_MODAL_Z_INDEX + Z_INDEX_INCREMENT;
          h' = h\<lparr> shouldRenderBackdrop := True,
                  zIndexes := \<lparr> modal = stackedModalZIndex, backdrop = stackedModalZIndex - 1 \<rparr> \<rparr>
      in if hasDocument d \<and> backdrops d \<noteq> []
         then
           let parentBackdrop = last (backdrops d) in
           (h'\<lparr> backdropRef := Some parentBackdrop,
                 originalBackdropZIndexRef :=
                   Some (or_else (style d parentBackdrop ''zIndex'') (String BASE_BACKDROP_Z_INDEX)),
                 originalBackdropOpacityRef :=
                   Some (or_else (style d parentBackdrop ''opacity'') ''0.5'') \<rparr>,
            setStyle parentBackdrop ''opacity'' ''0''
              (setStyle parentBackdrop ''transition'' ''opacity 150ms ease-in-out'' d))
         else (h', d))"

text \<open>
  The body of the layout effect, for the current \<open>isStacked\<close> and \<open>isOpen\<close>. Only the
  last branch returns a cleanup.
\<close>

definition stackedLayoutEffect ::
  "bool \<Rightarrow> bool \<Rightarrow> stacked_modal \<times> modal_dom \<Rightarrow> stacked_modal \<times> modal_dom" where
  "stackedLayoutEffect isStacked isOpen st =
     (if \<not> isStacked then st
      else if \<not> isOpen
        then ((fst st)\<lparr> shouldRenderBackdrop := False,
                         zIndexes := \<lparr> modal = BASE_MODAL_Z_INDEX, backdrop = BASE_BACKDROP_Z_INDEX \<rparr> \<rparr>,
              snd st)
      else adjustBackdrop st)"

definition returnsCleanup :: "bool \<Rightarrow> bool \<Rightarrow> bool" where
  "returnsCleanup isStacked isOpen \<longleftrightarrow> isStacked \<and> isOpen"

text \<open>
  The cleanup. A ref holding \<open>null\<close> or the empty string is falsy; the refs are strings
  that were stored with a non-empty default, but the test is modelled as written.
\<close>

definition truthy :: "string option \<Rightarrow> bool" where
  "truthy r = (case r of None \<Rightarrow> False | Some v \<Rightarrow> v \<noteq> [])"

definition stackedCleanup :: "stacked_modal \<times> modal_dom \<Rightarrow> stacked_modal \<times> modal_dom" where
  "stackedCleanup st =
     (let h = fst st; d = snd st in
      case backdropRef h of
        None \<Rightarrow> (h, d)
      | Some el \<Rightarrow>
          let d1 = (if truthy (originalBackdropZIndexRef h)
                    then setStyle el ''zIndex'' (the (originalBackdropZIndexRef h)) d else d);
              d2 = (if truthy (originalBackdropOpacityRef h)
                    then setStyle el ''opacity'' (the (originalBackdropOpacityRef h))
                           (setStyle el ''transition'' ''opacity 150ms ease-in-out'' d1)
                    else d1)
          in (h\<lparr> backdropRef := None, originalBackdropZIndexRef := None,
                  originalBackdropOpacityRef := None \<rparr>, d2))"

text \<open>
  React runs the cleanup of the previous effect, if it returned one, when the modal is
  re-rendered with other \<open>isOpen\<close> or \<open>isStacked\<close> and when it unmounts.
\<close>

definition rerender ::
  "bool \<times> bool \<Rightarrow> bool \<times> bool \<Rightarrow> stacked_modal \<times> modal_dom \<Rightarrow> stacked_modal \<times> modal_dom" where
  "rerender before now st =
     stackedLayoutEffect (fst now) (snd now)
       (if returnsCleanup (fst before) (snd before) then stackedCleanup st else st)"

definition unmount :: "bool \<times> bool \<Rightarrow> stacked_modal \<times> modal_dom \<Rightarrow> stacked_modal \<times> modal_dom" where
  "unmount before st = (if returnsCleanup (fst before) (snd before) then stackedCleanup st else st)"

text \<open>What the hook returns: \<open>modalStyle\<close> is \<open>{zIndex: zIndexes.modal}\<close> or \<open>{}\<close>.\<close>

definition modalStyle :: "bool \<Rightarrow> stacked_modal \<Rightarrow> int option" where
  "modalStyle isStacked h = (if isStacked then Some (modal (zIndexes h)) else None)"

text \<open>
  The \<open>backdrop\<close> prop of the modal is a boolean, \<open>'static'\<close> or absent; the component
  hands \<open>shouldRenderBackdrop ? backdrop : false\<close> to the underlying Modal.
\<close>

datatype backdrop_prop = Backdrop bool | BackdropStatic | BackdropUndefined

definition modalBackdrop :: "stacked_modal \<Rightarrow> backdrop_prop \<Rightarrow> backdrop_prop" where
  "modalBackdrop h b = (if shouldRenderBackdrop h then b else Backdrop False)"

text \<open>A page with one backdrop, element 5, that has no inline style.\<close>

definition plain_backdrop_dom :: modal_dom where
  "plain_backdrop_dom = \<lparr> hasDocument = True, backdrops = [5], style = (\<lambda>_ _. []) \<rparr>"

text \<open>A page with two backdrops; the later one, element 6, has a z-index and an opacity.\<close>

definition styled_backdrop_dom :: modal_dom where
  "styled_backdrop_dom =
     \<lparr> hasDocument = True, backdrops = [5, 6],
       style = (\<lambda>el prop. if el = 6 \<and> prop = ''zIndex'' then ''1051''
                          else if el = 6 \<and> prop = ''opacity'' then ''0.4'' else []) \<rparr>"

section \<open>useMeasurePunchouts: the bounding box of a set of elements\<close>





text \<open>
  The punch-out handed to the tour tip: \<open>x\<close> and \<open>y\<close> are optional in its type, \<open>width\<close>
  and \<open>height\<close> are not.
\<close>

record punch_out =
  po_x :: "string option"
  po_y :: "string option"
  po_width :: string
  po_height :: string

















section \<open>GenericModal and TourTip: handlers with optional callbacks\<close>

text \<open>
  A callback prop is a function or \<open>undefined\<close>. Calling \<open>undefined\<close> raises a
  \<open>TypeError\<close>; the optional call \<open>f?.()\<close> does nothing instead. A callback acts on the
  world outside the component, of type \<open>'w\<close>; callbacks that throw themselves are not
  modelled.
\<close>

datatype js_error = TypeError

definition js_call :: "bool \<Rightarrow> ('w \<Rightarrow> 'w) option \<Rightarrow> 'w \<Rightarrow> js_error + 'w" where
  "js_call optional f w =
     (case f of
        Some g \<Rightarrow> Inr (g w)
      | None \<Rightarrow> if optional then Inr w else Inl TypeError)"

definition and_then :: "js_error + 'a \<Rightarrow> ('a \<Rightarrow> js_error + 'b) \<Rightarrow> js_error + 'b" where
  "and_then r f = (case r of Inl e \<Rightarrow> Inl e | Inr v \<Rightarrow> f v)"

record 'w GenericModal_props =
  onHide :: "('w \<Rightarrow> 'w) option"
  handleCancel :: "('w \<Rightarrow> 'w) option"
  handleConfirm :: "('w \<Rightarrow> 'w) option"
  handleEnterKeyPress :: "('w \<Rightarrow> 'w) option"
  handleKeydown :: "(event \<Rightarrow> 'w \<Rightarrow> 'w) option"
  autoCloseOnCancelButton :: bool
  autoCloseOnConfirmButton :: bool

text \<open>
  What a handler works on: the event it received, the state \<open>showState\<close> of the modal
  (\<open>setShowState\<close> is taken to act at once), and the world of the callbacks.
\<close>

record 'w handler_state =
  evt :: event
  showState :: bool
  world :: 'w

definition onHideCallback ::
  "'w GenericModal_props \<Rightarrow> 'w handler_state \<Rightarrow> js_error + 'w handler_state" where
  "onHideCallback p r =
     (let r1 = r\<lparr>showState := False\<rparr> in
      and_then (js_call True (onHide p) (world r1)) (\<lambda>w. Inr (r1\<lparr>world := w\<rparr>)))"

definition handleCancelCallback ::
  "'w GenericModal_props \<Rightarrow> 'w handler_state \<Rightarrow> js_error + 'w handler_state" where
  "handleCancelCallback p r =
     (let r1 = r\<lparr>evt := preventDefault (evt r)\<rparr> in
      and_then (if autoCloseOnCancelButton p then onHideCallback p r1 else Inr r1) (\<lambda>r2.
      and_then (js_call True (handleCancel p) (world r2)) (\<lambda>w. Inr (r2\<lparr>world := w\<rparr>))))"

definition handleConfirmCallback ::
  "'w GenericModal_props \<Rightarrow> 'w handler_state \<Rightarrow> js_error + 'w handler_state" where
  "handleConfirmCallback p r =
     (let r1 = r\<lparr>evt := preventDefault (evt r)\<rparr> in
      and_then (if autoCloseOnConfirmButton p then onHideCallback p r1 else Inr r1) (\<lambda>r2.
      and_then (js_call True (handleConfirm p) (world r2)) (\<lambda>w. Inr (r2\<lparr>world := w\<rparr>))))"

text \<open>\<open>handleKeydown?.(event)\<close>, the last statement of \<open>onEnterKeyDown\<close>.\<close>

definition callHandleKeydown ::
  "'w GenericModal_props \<Rightarrow> 'w handler_state \<Rightarrow> js_error + 'w handler_state" where
  "callHandleKeydown p r =
     and_then (js_call True (map_option (\<lambda>f. f (evt r)) (handleKeydown p)) (world r))
       (\<lambda>w. Inr (r\<lparr>world := w\<rparr>))"

definition onEnterKeyDown ::
  "'w GenericModal_props \<Rightarrow> 'w handler_state \<Rightarrow> js_error + 'w handler_state" where
  "onEnterKeyDown p r =
     (if key (evt r) = ''Enter''
      then
        if isComposing (evt r) then Inr r
        else
          and_then (if handleConfirm p \<noteq> None \<and> autoCloseOnConfirmButton p
                    then onHideCallback p r else Inr r) (\<lambda>r1.
          and_then (js_call True (handleEnterKeyPress p) (world r1)) (\<lambda>w.
          callHandleKeydown p (r1\<lparr>world := w\<rparr>)))
      else callHandleKeydown p r)"

text \<open>\<open>onJump\<close> of the tour tip: \<open>handleJump?.(event, jumpToStep)\<close>.\<close>

definition onJump ::
  "(event \<Rightarrow> int \<Rightarrow> 'w \<Rightarrow> 'w) option \<Rightarrow> event \<Rightarrow> int \<Rightarrow> 'w \<Rightarrow> js_error + 'w" where
  "onJump handleJump e jumpToStep w =
     js_call True (map_option (\<lambda>f. f e jumpToStep) handleJump) w"

text \<open>The effect of a callback prop on the world when an absent one does nothing.\<close>

definition effect_of :: "('w \<Rightarrow> 'w) option \<Rightarrow> 'w \<Rightarrow> 'w" where
  "effect_of f w = (case f of Some g \<Rightarrow> g w | None \<Rightarrow> w)"

text \<open>
  Props for the concrete runs: no callback at all, and the same with \<open>handleConfirm\<close>
  alone; the world counts the calls made.
\<close>

definition no_callbacks :: "nat GenericModal_props" where
  "no_callbacks = \<lparr> onHide = None, handleCancel = None, handleConfirm = None,
                     handleEnterKeyPress = None, handleKeydown = None,
                     autoCloseOnCancelButton = True, autoCloseOnConfirmButton = True \<rparr>"

definition only_handleConfirm :: "nat GenericModal_props" where
  "only_handleConfirm = no_callbacks\<lparr> handleConfirm := Some Suc \<rparr>"

definition enter_key :: event where
  "enter_key = \<lparr> key = ''Enter'', shiftKey = False, isComposing = False, defaultPrevented = False \<rparr>"

section \<open>TourTipBackdrop: the clip path around the punch-out\<close>

text \<open>
  A template literal prints an absent \<open>x\<close> or \<open>y\<close> as \<open>undefined\<close>.
\<close>

definition template :: "string option \<Rightarrow> string" where
  "template s = (case s of Some v \<Rightarrow> v | None \<Rightarrow> ''undefined'')"

definition vertices :: "punch_out option \<Rightarrow> string list" where
  "vertices overlayPunchOut =
     (case overlayPunchOut of
        None \<Rightarrow> []
      | Some po \<Rightarrow>
          let x = template (po_x po); y = template (po_y po);
              width = po_width po; height = po_height po
          in [ ''0% 0%'',
               ''0% 100%'',
               ''100% 100%'',
               ''100% 0%'',
               x @ '' 0%'',
               x @ '' '' @ y,
               ''calc('' @ x @ '' + '' @ width @ '') '' @ y,
               ''calc('' @ x @ '' + '' @ width @ '') calc('' @ y @ '' + '' @ height @ '')'',
               x @ '' calc('' @ y @ '' + '' @ height @ '')'',
               x @ '' '' @ y,
               x @ '' 0%'',
               ''0% 0%'' ])"

text \<open>\<open>Array.prototype.join\<close>.\<close>

fun join :: "string \<Rightarrow> string list \<Rightarrow> string" where
  "join sep [] = []"
| "join sep [v] = v"
| "join sep (v # w # vs) = v @ sep @ join sep (w # vs)"

text \<open>The \<open>clipPath\<close> of the backdrop's style: absent when there is no vertex.\<close>

definition clipPath :: "punch_out option \<Rightarrow> string option" where
  "clipPath overlayPunchOut =
     (if length (vertices overlayPunchOut) = 0 then None
      else Some (''polygon('' @ join '', '' (vertices overlayPunchOut) @ '')''))"

text \<open>
  What the component renders: nothing unless \<open>show\<close> is set; otherwise, in the portal, the
  backdrop \<open>div\<close> with its class name and clip path, preceded by the overlay \<open>div\<close>
  unless the punch-out is interactive.
\<close>

datatype tour_node = OverlayDiv | BackdropDiv string "string option"

definition TourTipBackdrop :: "bool \<Rightarrow> punch_out option \<Rightarrow> bool \<Rightarrow> bool \<Rightarrow> tour_node list option" where
  "TourTipBackdrop show overlayPunchOut interactivePunchOut transparent =
     (let backdrop = BackdropDiv
            (''tour-tip__backdrop '' @ (if transparent then ''tour-tip__backdrop--transparent'' else []))
            (clipPath overlayPunchOut);
          overlay = (if interactivePunchOut then [backdrop] else [OverlayDiv, backdrop])
      in if show then Some overlay else None)"

subsection \<open>How the browser reads the polygon\<close>

text \<open>
  The vertex strings, read as CSS: a coordinate is a percentage of the viewport extent, a
  length given as text, or the sum \<open>calc(a + b)\<close> of two lengths. \<open>css_text\<close> prints a
  coordinate, and \<open>punch_out_path\<close> is the path whose printed form the component builds.
\<close>

datatype css_coordinate = Percent int | Length string | Calc string string

fun css_text :: "css_coordinate \<Rightarrow> string" where
  "css_text (Percent n) = String n @ ''%''"
| "css_text (Length s) = s"
| "css_text (Calc a b) = ''calc('' @ a @ '' + '' @ b @ '')''"

definition vertex_text :: "css_coordinate \<times> css_coordinate \<Rightarrow> string" where
  "vertex_text v = css_text (fst v) @ '' '' @ css_text (snd v)"

definition punch_out_path ::
  "string \<Rightarrow> string \<Rightarrow> string \<Rightarrow> string \<Rightarrow> (css_coordinate \<times> css_coordinate) list" where
  "punch_out_path x y width height =
     [ (Percent 0, Percent 0),
       (Percent 0, Percent 100),
       (Percent 100, Percent 100),
       (Percent 100, Percent 0),
       (Length x, Percent 0),
       (Length x, Length y),
       (Calc x width, Length y),
       (Calc x width, Calc y height),
       (Length x, Calc y height),
       (Length x, Length y),
       (Length x, Percent 0),
       (Percent 0, Percent 0) ]"

text \<open>
  A coordinate resolves to pixels against the extent of the backdrop (the viewport) in its
  direction. \<open>used\<close> gives the pixel value of a length text (\<open>used ''12px'' = Some 12\<close>)
  and nothing for a text that is no length, such as \<open>undefined\<close>. A polygon with a vertex
  that does not resolve is no valid clip path.
\<close>

type_synonym point = "int \<times> int"

fun resolve :: "(string \<Rightarrow> int option) \<Rightarrow> int \<Rightarrow> css_coordinate \<Rightarrow> int option" where
  "resolve used extent (Percent n) = Some (n * extent div 100)"
| "resolve used extent (Length s) = used s"
| "resolve used extent (Calc a b) =
     (case used a of
        None \<Rightarrow> None
      | Some u \<Rightarrow> (case used b of None \<Rightarrow> None | Some v \<Rightarrow> Some (u + v)))"

definition resolve_vertex ::
  "(string \<Rightarrow> int option) \<Rightarrow> int \<times> int \<Rightarrow> css_coordinate \<times> css_coordinate \<Rightarrow> point option" where
  "resolve_vertex used viewport v =
     (case resolve used (fst viewport) (fst v) of
        None \<Rightarrow> None
      | Some a \<Rightarrow> (case resolve used (snd viewport) (snd v) of None \<Rightarrow> None | Some b \<Rightarrow> Some (a, b)))"

fun resolve_path ::
  "(string \<Rightarrow> int option) \<Rightarrow> int \<times> int \<Rightarrow> (css_coordinate \<times> css_coordinate) list
     \<Rightarrow> point list option" where
  "resolve_path used viewport [] = Some []"
| "resolve_path used viewport (v # vs) =
     (case resolve_vertex used viewport v of
        None \<Rightarrow> None
      | Some p \<Rightarrow> (case resolve_path used viewport vs of None \<Rightarrow> None | Some ps \<Rightarrow> Some (p # ps)))"

text \<open>
  \<open>polygon()\<close> fills by the non-zero rule: a point is inside when the winding number of
  the closed path around it is not zero. The winding number counts the edges that cross
  the horizontal ray from the point to the right, with the sign of their direction.
\<close>

definition isLeft :: "point \<Rightarrow> point \<Rightarrow> point \<Rightarrow> int" where
  "isLeft a b p = (fst b - fst a) * (snd p - snd a) - (fst p - fst a) * (snd b - snd a)"

definition crossing :: "point \<Rightarrow> point \<Rightarrow> point \<Rightarrow> int" where
  "crossing a b p =
     (if snd a \<le> snd p
      then (if snd p < snd b \<and> 0 < isLeft a b p then 1 else 0)
      else (if snd b \<le> snd p \<and> isLeft a b p < 0 then - 1 else 0))"

definition edges :: "point list \<Rightarrow> (point \<times> point) list" where
  "edges vs = (if vs = [] then [] else zip vs (tl vs @ [hd vs]))"

definition winding_number :: "point list \<Rightarrow> point \<Rightarrow> int" where
  "winding_number vs p = sum_list (map (\<lambda>e. crossing (fst e) (snd e) p) (edges vs))"

text \<open>
  The pixel \<open>(i, j)\<close> is the unit square with corner \<open>(i, j)\<close>; it is painted when its
  centre is inside the polygon. Doubling all coordinates keeps the centre integral.
\<close>

definition darkened :: "point list \<Rightarrow> point \<Rightarrow> bool" where
  "darkened vs pixel \<longleftrightarrow>
     winding_number (map (\<lambda>v. (2 * fst v, 2 * snd v)) vs) (2 * fst pixel + 1, 2 * snd pixel + 1) \<noteq> 0"

text \<open>
  The backdrop darkens the page where it is painted. Without a clip path, or with one
  that is not valid, it is painted everywhere; with a valid polygon it is painted inside
  the polygon.
\<close>

definition backdrop_darkens ::
  "(string \<Rightarrow> int option) \<Rightarrow> int \<times> int \<Rightarrow> (css_coordinate \<times> css_coordinate) list option
     \<Rightarrow> point \<Rightarrow> bool" where
  "backdrop_darkens used viewport path pixel =
     (case path of
        None \<Rightarrow> True
      | Some vs \<Rightarrow>
          (case resolve_path used viewport vs of
             None \<Rightarrow> True
           | Some ps \<Rightarrow> darkened ps pixel))"

text \<open>A punch-out for the concrete runs, with the pixel values of the lengths used.\<close>

definition example_punch_out :: punch_out where
  "example_punch_out = \<lparr> po_x = Some ''10px'', po_y = Some ''20px'',
                          po_width = ''30px'', po_height = ''40px'' \<rparr>"

text \<open>Two more: one without \<open>x\<close>, one with a negative width.\<close>

definition punch_out_without_x :: punch_out where
  "punch_out_without_x = \<lparr> po_x = None, po_y = Some ''20px'',
                            po_width = ''30px'', po_height = ''40px'' \<rparr>"

definition punch_out_negative_width :: punch_out where
  "punch_out_negative_width = \<lparr> po_x = Some ''40px'', po_y = Some ''20px'',
                                 po_width = ''-30px'', po_height = ''40px'' \<rparr>"

definition example_used :: "string \<Rightarrow> int option" where
  "example_used s = (if s = ''10px'' then Some 10 else if s = ''20px'' then Some 20
                     else if s = ''30px'' then Some 30 else if s = ''40px'' then Some 40
                     else if s = ''-30px'' then Some (- 30) else None)"

section \<open>Printing numbers: evaluation rules\<close>

text \<open>
  The equation of \<open>digits\<close> is not a simplification rule (it would unfold for ever); on a
  numeral it evaluates.
\<close>

lemma digits_numeral:
  "digits (numeral k) =
     (if numeral k < (10::nat) then [digit_char (numeral k)]
      else digits (numeral k div 10) @ [digit_char (numeral k mod 10)])"
  by (rule digits.simps)

lemma digits_0: "digits 0 = ''0''"
  by (simp add: digits.simps [of 0] digit_char_def)

lemma digits_1: "digits (Suc 0) = ''1''"
  by (simp add: digits.simps [of "Suc 0"] digit_char_def)

lemmas String_eval = String_def digits_numeral digits_0 digits_1 digit_char_def

section \<open>Properties of FooterPagination\<close>

subsection \<open>Whole numbers below \<open>2\<^sup>5\<^sup>3\<close> are computed exactly\<close>

lemma to_double_exact: "\<bar>n\<bar> < 2 ^ 53 \<Longrightarrow> to_double n = Num n"
proof -
  assume small: "\<bar>n\<bar> < 2 ^ 53"
  then have "nat \<bar>n\<bar> < 2 ^ 53" by simp
  then have r: "round_nat (nat \<bar>n\<bar>) = nat \<bar>n\<bar>" by (simp add: round_nat_def)
  have "int (nat \<bar>n\<bar>) < 2 ^ 1024" using small by simp
  then have "\<not> (2 ^ 1024 \<le> nat \<bar>n\<bar>)"
    by (metis linorder_not_less of_nat_le_iff of_nat_numeral of_nat_power)
  moreover have "sgn n * int (nat \<bar>n\<bar>) = n" by (simp add: mult_sgn_abs)
  ultimately show ?thesis by (simp add: to_double_def r Let_def)
qed

lemma bit_length_bounds:
  "0 < n \<Longrightarrow> 2 ^ (bit_length n - 1) \<le> n \<and> n < 2 ^ bit_length n"
proof (induction n rule: bit_length.induct)
  case (1 n)
  show ?case
  proof (cases "n div 2 = 0")
    case True
    with "1.prems" have "n = 1" by (metis One_nat_def Suc_lessI div_less gr_implies_not0 less_2_cases_iff numeral_2_eq_2 div_eq_0_iff zero_neq_numeral)
    then show ?thesis by (simp add: bit_length.simps [of "Suc 0"] bit_length.simps [of 0])
  next
    case False
    then have pos: "0 < n div 2" by simp
    with "1.prems" "1.IH" have ih: "2 ^ (bit_length (n div 2) - 1) \<le> n div 2"
      "n div 2 < 2 ^ bit_length (n div 2)" by simp_all
    from pos have "0 < bit_length (n div 2)"
      by (simp add: bit_length.simps [of "n div 2"])
    then have suc: "bit_length (n div 2) = Suc (bit_length (n div 2) - 1)" by simp
    have bl: "bit_length n = Suc (bit_length (n div 2))"
      using "1.prems" by (simp add: bit_length.simps [of n])
    have "2 ^ bit_length (n div 2) = 2 * 2 ^ (bit_length (n div 2) - 1)"
      by (subst suc) simp
    also have "\<dots> \<le> 2 * (n div 2)" using ih(1) by simp
    also have "\<dots> \<le> n" by simp
    finally have lower: "2 ^ (bit_length n - 1) \<le> n" by (simp add: bl)
    from ih(2) have "n div 2 + 1 \<le> 2 ^ bit_length (n div 2)" by simp
    then have "2 * (n div 2) + 2 \<le> 2 * 2 ^ bit_length (n div 2)" by simp
    moreover have "n < 2 * (n div 2) + 2" by presburger
    ultimately have "n < 2 ^ bit_length n" by (simp add: bl)
    with lower show ?thesis by simp
  qed
qed


lemma div_Suc_same:
  fixes q m :: nat
  assumes "0 < m" and "\<not> m dvd q + 1"
  shows "(q + 1) div m = q div m"
proof -
  have "q mod m + 1 \<noteq> m"
  proof
    assume "q mod m + 1 = m"
    then have "(q + 1) mod m = 0"
      by (metis mod_add_left_eq mod_self)
    with assms(2) show False by (simp add: dvd_eq_mod_eq_0)
  qed
  moreover have "q mod m < m" using assms(1) by simp
  ultimately have lt: "q mod m + 1 < m" by simp
  have "q + 1 = (q mod m + 1) + (q div m) * m" by simp
  then have "(q + 1) div m = ((q mod m + 1) + (q div m) * m) div m" by (rule arg_cong)
  also have "\<dots> = (q mod m + 1) div m + q div m" using assms(1) by (simp only: div_mult_self1 add.commute)
  also have "\<dots> = q div m" using lt by simp
  finally show ?thesis .
qed

text \<open>
  The rounding of the quotient does not reach the next whole number while the numerator
  is below \<open>2\<^sup>5\<^sup>3\<close>.
\<close>

lemma round_half_even_div:
  fixes a b s :: nat
  assumes a: "a < 2 ^ 53" and b: "0 < b"
    and lb: "2 ^ 52 * b \<le> a * 2 ^ s"
  shows "round_half_even (a * 2 ^ s) b div 2 ^ s = a div b"
proof -
  let ?n = "a * 2 ^ s"
  let ?q = "?n div b"
  let ?r = "?n mod b"
  have exact: "?q div 2 ^ s = a div b"
  proof -
    have "?q div 2 ^ s = ?n div (b * 2 ^ s)" by (simp add: div_mult2_eq)
    also have "\<dots> = a div b" by simp
    finally show ?thesis .
  qed
  have rhe: "round_half_even ?n b = (if b < 2 * ?r \<or> (2 * ?r = b \<and> odd ?q) then ?q + 1 else ?q)"
    by (simp add: round_half_even_def Let_def)
  show ?thesis
  proof (cases "b < 2 * ?r \<or> (2 * ?r = b \<and> odd ?q)")
    case False
    then show ?thesis by (simp only: rhe if_False exact)
  next
    case True
    then have half: "b \<le> 2 * ?r" by auto
    have "\<not> 2 ^ s dvd ?q + 1"
    proof
      assume "2 ^ s dvd ?q + 1"
      then obtain m where m: "?q + 1 = 2 ^ s * m" by (rule dvdE)
      have r: "?r < b" using b by simp
      have "?q * b + ?r = ?n" by simp
      then have "(?q + 1) * b + ?r = ?n + b" by (simp only: add_mult_distrib mult_1 add.assoc add.commute [of b])
      then have step: "(?q + 1) * b = ?n + (b - ?r)" using r by arith
      have "2 ^ s * (m * b) = (?q + 1) * b" by (simp only: m mult.assoc)
      also note step
      finally have eq: "2 ^ s * (m * b) = a * 2 ^ s + (b - ?r)" .
      have "(2::nat) ^ s dvd 2 ^ s * (m * b)" by simp
      then have "(2::nat) ^ s dvd a * 2 ^ s + (b - ?r)" by (simp only: eq)
      moreover have "(2::nat) ^ s dvd a * 2 ^ s" by simp
      ultimately have "(2::nat) ^ s dvd b - ?r" by (simp only: dvd_add_right_iff)
      moreover have "0 < b - ?r" using r by simp
      ultimately have "2 ^ s \<le> b - ?r" by (rule dvd_imp_le)
      with half have big: "2 * 2 ^ s \<le> b" by simp
      have "(2::nat) ^ 53 * 2 ^ s = 2 ^ 52 * (2 * 2 ^ s)" by simp
      also have "\<dots> \<le> 2 ^ 52 * b" using big by (rule mult_le_mono2)
      also note lb
      finally have "2 ^ 53 * 2 ^ s \<le> a * 2 ^ s" .
      then have "2 ^ 53 \<le> a" by (simp only: mult_le_cancel2) simp
      with a show False by simp
    qed
    then have "(?q + 1) div 2 ^ s = ?q div 2 ^ s"
      by (intro div_Suc_same) simp_all
    with True show ?thesis by (simp only: rhe if_True exact)
  qed
qed


lemma bit_length_pos: "0 < n \<Longrightarrow> 0 < bit_length n"
  by (simp add: bit_length.simps [of n])

lemma round_half_even_one: "round_half_even a (Suc 0) = a"
  by (simp add: round_half_even_def)

lemma trunc_rounded_quotient_exact:
  assumes a: "a < 2 ^ 53" and b: "0 < b"
  shows "trunc_rounded_quotient a b = a div b"
proof (cases "a = 0")
  case True
  then show ?thesis by (simp add: trunc_rounded_quotient_def)
next
  case False
  then have apos: "0 < a" by simp
  define La Lb where "La = bit_length a" and "Lb = bit_length b"
  define k where "k = int La - int Lb"
  define e where "e = (if a * 2 ^ nat (- k) < b * 2 ^ nat k then k - 53 else k - 52)"
  have unfold: "trunc_rounded_quotient a b =
      (if 0 \<le> e then round_half_even (a * 2 ^ nat (- e)) (b * 2 ^ nat e) * 2 ^ nat e
       else round_half_even (a * 2 ^ nat (- e)) (b * 2 ^ nat e) div 2 ^ nat (- e))"
    by (simp only: trunc_rounded_quotient_def Let_def e_def k_def La_def Lb_def False if_False)
  from bit_length_bounds [OF apos] have A: "2 ^ (La - 1) \<le> a" "a < 2 ^ La"
    by (simp_all add: La_def)
  from bit_length_bounds [OF b] have B: "2 ^ (Lb - 1) \<le> b" "b < 2 ^ Lb"
    by (simp_all add: Lb_def)
  have La1: "1 \<le> La" using bit_length_pos [OF apos] by (simp add: La_def)
  have Lb1: "1 \<le> Lb" using bit_length_pos [OF b] by (simp add: Lb_def)
  have "(2::nat) ^ (La - 1) < 2 ^ 53" using A(1) a by (rule le_less_trans)
  then have "La - 1 < 53" by (simp only: power_strict_increasing_iff) 
  then have La53: "La \<le> 53" by simp
  have k52: "k \<le> 52" using La53 Lb1 by (simp add: k_def)
  have lower: "2 ^ 52 * b \<le> a * 2 ^ nat (- e)" if neg: "e < 0"
  proof (cases "a * 2 ^ nat (- k) < b * 2 ^ nat k")
    case True
    then have e: "e = k - 53" by (simp add: e_def)
    have s: "nat (- e) = 53 + Lb - La" using La53 by (simp add: e k_def)
    have ex: "52 + Lb = (La - 1) + (53 + Lb - La)" using La1 La53 by arith
    have "b \<le> 2 ^ Lb" using B(2) by simp
    then have "(2::nat) ^ 52 * b \<le> 2 ^ 52 * 2 ^ Lb" by (rule mult_le_mono2)
    also have "\<dots> = 2 ^ (52 + Lb)" by (simp only: power_add)
    also have "\<dots> = 2 ^ (La - 1) * 2 ^ (53 + Lb - La)" by (simp only: ex power_add)
    also have "\<dots> \<le> a * 2 ^ (53 + Lb - La)" using A(1) by (rule mult_le_mono1)
    finally show ?thesis by (simp only: s)
  next
    case False
    then have e: "e = k - 52" and le: "b * 2 ^ nat k \<le> a * 2 ^ nat (- k)"
      by (simp_all add: e_def)
    show ?thesis
    proof (cases "0 \<le> k")
      case True
      then have s: "nat (- e) = 52 - nat k" and le': "b * 2 ^ nat k \<le> a"
        using le neg by (simp_all add: e)
      have k': "nat k \<le> 52" using k52 by simp
      have ex: "52 = nat k + (52 - nat k)" using k' by arith
      have "(2::nat) ^ 52 = 2 ^ (nat k + (52 - nat k))" by (simp only: ex [symmetric])
      then have "(2::nat) ^ 52 * b = (b * 2 ^ nat k) * 2 ^ (52 - nat k)"
        by (simp only: power_add mult.assoc mult.commute [of _ b])
      also have "\<dots> \<le> a * 2 ^ (52 - nat k)" using le' by (rule mult_le_mono1)
      finally show ?thesis by (simp only: s)
    next
      case False
      then have s: "nat (- e) = 52 + nat (- k)" and le': "b \<le> a * 2 ^ nat (- k)"
        using le by (simp_all add: e)
      have "(2::nat) ^ 52 * b \<le> 2 ^ 52 * (a * 2 ^ nat (- k))" using le' by (rule mult_le_mono2)
      also have "\<dots> = a * 2 ^ (52 + nat (- k))" by (simp only: power_add mult.left_commute)
      finally show ?thesis by (simp only: s)
    qed
  qed
  show ?thesis
  proof (cases "e < 0")
    case True
    then have "nat e = 0" by simp
    with True have "trunc_rounded_quotient a b
        = round_half_even (a * 2 ^ nat (- e)) b div 2 ^ nat (- e)"
      by (simp add: unfold)
    also have "\<dots> = a div b"
      using a b lower [OF True] by (rule round_half_even_div)
    finally show ?thesis .
  next
    case False
    have "e \<le> k - 52" by (simp add: e_def)
    with False k52 have e0: "e = 0" and k: "k = 52" by simp_all
    from k La53 Lb1 have "Lb = 1" by (simp add: k_def)
    with B(2) b have b1: "b = 1" by simp
    from e0 have "trunc_rounded_quotient a b = round_half_even a b"
      by (simp add: unfold)
    also have "\<dots> = a div b" by (simp add: b1 round_half_even_one)
    finally show ?thesis .
  qed
qed

lemma trunc_quotient_exact:
  assumes "0 \<le> a" and "a < 2 ^ 53" and "0 < b"
  shows "trunc_quotient (Num a) b = Num (a div b)"
proof -
  have "nat a < 2 ^ 53" using assms(1,2) by simp
  moreover have "0 < nat b" using assms(3) by simp
  ultimately have "trunc_rounded_quotient (nat a) (nat b) = nat a div nat b"
    by (rule trunc_rounded_quotient_exact)
  moreover have "int (nat a div nat b) = a div b"
    using assms(1,3) by (simp add: zdiv_int)
  ultimately have q: "int (trunc_rounded_quotient (nat \<bar>a\<bar>) (nat \<bar>b\<bar>)) = a div b"
    using assms(1,3) by simp
  show ?thesis
  proof (cases "a = 0")
    case True
    with assms(3) q show ?thesis by simp
  next
    case False
    with assms have "sgn a = 1" "sgn b = 1" by simp_all
    with assms(3) q show ?thesis by simp
  qed
qed


subsection \<open>Evaluating the rounding on numerals\<close>

lemma bit_length_numeral: "bit_length (numeral k) = Suc (bit_length (numeral k div 2))"
  by (simp add: bit_length.simps [of "numeral k"])

lemma bit_length_0: "bit_length 0 = 0"
  by (simp add: bit_length.simps [of 0])

lemma bit_length_1: "bit_length (Suc 0) = Suc 0"
  by (simp add: bit_length.simps [of "Suc 0"] bit_length_0)

lemmas rounding_eval = to_double_def round_nat_def round_half_even_def
  trunc_rounded_quotient_def bit_length_numeral bit_length_0 bit_length_1 Let_def

text \<open>
  Some values of JavaScript, for comparison: \<open>2 ** 53 + 1\<close> is \<open>9007199254740992\<close>,
  \<open>2 ** 53 + 3\<close> is \<open>9007199254740996\<close>, \<open>94906267 * 94906267\<close> is
  \<open>9007199515875288\<close>, and \<open>Math.trunc(13510798882111490 / 4503599627370497)\<close> is 3,
  although the exact quotient is below 3.
\<close>

lemma rounding_examples:
  "to_double (9007199254740992 + 1) = Num 9007199254740992"
  "to_double (9007199254740992 + 3) = Num 9007199254740996"
  "to_double (94906267 * 94906267) = Num 9007199515875288"
  "to_double (- 9007199254740993) = Num (- 9007199254740992)"
  "trunc_quotient (Num 13510798882111490) 4503599627370497 = Num 3"
  "(13510798882111490 :: int) div 4503599627370497 = 2"
  "trunc_quotient (Num 7) 2 = Num 3"
  "trunc_quotient (Num (- 7)) 2 = Num (- 3)"
  by (simp_all add: rounding_eval)

subsection \<open>The pagination\<close>

text \<open>
  Claim C4, as amended. For whole numbers: a page \<open>p \<ge> 0\<close>, a total \<open>t \<ge> 1\<close> and a page
  size \<open>k \<ge> 1\<close> with \<open>p * k + k\<close> and \<open>t\<close> not above \<open>Number.MAX_SAFE_INTEGER\<close>, the
  legend shows the range from \<open>p * k + 1\<close> to \<open>min (p * k + k) t\<close> of \<open>t\<close> items, the last
  page index is the truncated quotient of \<open>t - 1\<close> by \<open>k\<close>, Previous is disabled exactly
  when \<open>p \<le> 0\<close> and Next exactly when \<open>p\<close> has reached the last page index.
\<close>

theorem FooterPagination_math:
  assumes "0 \<le> p" and "1 \<le> t" and "1 \<le> k"
    and "p * k + k \<le> MAX_SAFE_INTEGER" and "t \<le> MAX_SAFE_INTEGER"
  shows "FooterPagination p t k =
           \<lparr> legend = Some (Num (p * k + 1), Num (min (p * k + k) t), t),
             totalPages = Num ((t - 1) div k),
             prevDisabled = (p \<le> 0),
             nextDisabled = (p \<ge> (t - 1) div k) \<rparr>"
proof -
  from assms(1,3) have pk: "0 \<le> p * k" by simp
  from assms(3,4) pk have small: "p * k < 2 ^ 53" "p * k + 1 < 2 ^ 53" "p * k + k < 2 ^ 53"
    by (simp_all add: MAX_SAFE_INTEGER_def)
  from pk small(1) have start: "to_double (p * k) = Num (p * k)"
    by (intro to_double_exact) simp
  from pk small(2) have first: "to_double (p * k + 1) = Num (p * k + 1)"
    by (intro to_double_exact) simp
  from pk assms(3) small(3) have last: "to_double (p * k + k) = Num (p * k + k)"
    by (intro to_double_exact) simp
  from assms(2,5) have t1: "0 \<le> t - 1" "t - 1 < 2 ^ 53"
    by (simp_all add: MAX_SAFE_INTEGER_def)
  then have minus: "to_double (t - 1) = Num (t - 1)"
    by (intro to_double_exact) simp
  from t1 assms(3) have pages: "trunc_quotient (Num (t - 1)) k = Num ((t - 1) div k)"
    by (intro trunc_quotient_exact) simp_all
  from assms(2) have "t \<noteq> 0" by simp
  then show ?thesis
    by (simp add: FooterPagination_def Let_def start first last minus pages
          del: trunc_quotient.simps)
qed

theorem FooterPagination_math_witness:
  "(0::int) \<le> 2 \<and> (1::int) \<le> 25 \<and> (1::int) \<le> 10
   \<and> (2::int) * 10 + 10 \<le> MAX_SAFE_INTEGER \<and> 25 \<le> MAX_SAFE_INTEGER
   \<and> FooterPagination 2 25 10 =
       \<lparr> legend = Some (Num 21, Num 25, 25), totalPages = Num 2,
         prevDisabled = False, nextDisabled = True \<rparr>"
  using FooterPagination_math [of 2 25 10] by (simp add: MAX_SAFE_INTEGER_def)

text \<open>
  Beyond the safe integers the arithmetic of doubles shows. On page 94906267 with 94906267
  items per page the product is \<open>9007199515875289\<close>, which is no double; the component
  computes \<open>9007199515875288\<close>, adding 1 gives \<open>9007199515875288\<close> again, and the legend
  starts there, not at \<open>p * k + 1 = 9007199515875290\<close>. And with a total of
  \<open>9007199254740994\<close> and one item per page, \<open>total - 1\<close> is rounded to
  \<open>9007199254740992\<close>, which becomes the last page index, not \<open>9007199254740993\<close>.
\<close>

theorem FooterPagination_rounding_counterexample:
  "(0::int) \<le> 94906267 \<and> (1::int) \<le> 10 \<and> (1::int) \<le> 94906267
   \<and> legend (FooterPagination 94906267 10 94906267)
       = Some (Num 9007199515875288, Num 10, 10)
   \<and> (94906267::int) * 94906267 + 1 = 9007199515875290
   \<and> totalPages (FooterPagination 0 9007199254740994 1) = Num 9007199254740992
   \<and> ((9007199254740994::int) - 1) div 1 = 9007199254740993"
  by (simp add: FooterPagination_def rounding_eval)

section \<open>Properties of useFocusTrap\<close>

subsection \<open>The effect of each operation on the stack\<close>










lemma handleKeyDown_not_top:
  "topTrap s \<noteq> Some (container t) \<Longrightarrow> handleKeyDown t (e, s) = (e, s)"
  by (simp add: handleKeyDown_def)


lemma handleKeyDown_empty:
  "focusableElementsRef t = [] \<Longrightarrow> handleKeyDown t (e, s) = (e, s)"
  by (simp add: handleKeyDown_def)


lemmas example_simps = example_dom_def default_options_def tab_key_def
  getFocusableElements_def isElementVisible_def activateFocusTrap_def cleanup_def
  run_def initial_system_def Let_def focus_def

subsection \<open>Cycling of the focus\<close>

text \<open>
  Claim C1, as amended. Once a trap has been activated, while its container is the last
  entry of \<open>activeFocusTraps\<close> and at least one focusable element is cached, a Tab keydown
  is handled as follows: Shift+Tab with the focus on the first cached element prevents the
  default and calls \<open>focus()\<close> on the last one; Tab with the focus on the last cached
  element prevents the default and calls \<open>focus()\<close> on the first one; every other Tab
  keydown leaves the event and the focus as they are. The call of \<open>focus()\<close> moves the
  focus when the cached element still takes the focus, and leaves it where it is when the
  element has stopped being focusable since it was cached.
\<close>

theorem focus_cycles_in_top_trap:
  assumes "trapActive t" and "topTrap s = Some (container t)"
    and "focusableElementsRef t \<noteq> []" and "key e = ''Tab''"
  shows "handleKeyDown t (e, s) =
           (if shiftKey e \<and> activeElement s = Some (hd (focusableElementsRef t))
              then (e\<lparr>defaultPrevented := True\<rparr>,
                    if canFocus s (last (focusableElementsRef t))
                    then s\<lparr>activeElement := Some (last (focusableElementsRef t))\<rparr> else s)
            else if \<not> shiftKey e \<and> activeElement s = Some (last (focusableElementsRef t))
              then (e\<lparr>defaultPrevented := True\<rparr>,
                    if canFocus s (hd (focusableElementsRef t))
                    then s\<lparr>activeElement := Some (hd (focusableElementsRef t))\<rparr> else s)
            else (e, s))"
  using assms
  by (cases "focusableElementsRef t")
     (simp_all add: handleKeyDown_def preventDefault_def focus_def Let_def)

theorem focus_cycles_in_top_trap_witness:
  "trapActive trap_B
   \<and> topTrap (page [1, 2] (Some 22)) = Some (container trap_B)
   \<and> focusableElementsRef trap_B \<noteq> [] \<and> key tab_key = ''Tab''
   \<and> canFocus (page [1, 2] (Some 22)) 21
   \<and> handleKeyDown trap_B (tab_key, page [1, 2] (Some 22))
       = (tab_key\<lparr>defaultPrevented := True\<rparr>, page [1, 2] (Some 21))"
  using focus_cycles_in_top_trap
    [of trap_B "page [1, 2] (Some 22)" tab_key]
  by (simp add: trap_B_def tab_key_def topTrap_def page_def)

text \<open>
  Without the condition on the stack the statement fails. Two traps are installed by the
  hook, on containers 1 and 2, both with \<open>isActive\<close> true and two cached elements each.
  With the focus on the last element of container 1, a Tab keydown is ignored by the trap
  of container 1, because container 2 is on top of the stack, and by the trap of container
  2, because the focus is on none of its elements: the default is not prevented.

  The focus does not always move either. With the trap of container 1 alone on the stack
  and the focus on its last cached element 12, while the first cached element 11 no longer
  takes the focus, Tab prevents the default and the focus stays on 12.
\<close>

theorem trap_below_top_counterexample:
  "useFocusTrap example_dom default_options True (Some 1) [] None (page [] None)
     = Some (trap_A, page [1] None)
   \<and> useFocusTrap example_dom default_options True (Some 2) [] None (page [1] None)
     = Some (trap_B, page [1, 2] None)
   \<and> last (focusableElementsRef trap_A) = 12
   \<and> handleKeyDown trap_A (tab_key, page [1, 2] (Some 12))
       = (tab_key, page [1, 2] (Some 12))
   \<and> dispatchKeyDown [trap_A, trap_B] (tab_key, page [1, 2] (Some 12))
       = (tab_key, page [1, 2] (Some 12))
   \<and> \<not> defaultPrevented tab_key
   \<and> hd (focusableElementsRef trap_A) = 11
   \<and> handleKeyDown trap_A
         (tab_key, \<lparr> activeFocusTraps = [1], activeElement = Some 12, canFocus = (\<lambda>el. el \<noteq> 11) \<rparr>)
       = (tab_key\<lparr>defaultPrevented := True\<rparr>,
          \<lparr> activeFocusTraps = [1], activeElement = Some 12, canFocus = (\<lambda>el. el \<noteq> 11) \<rparr>)"
  by (simp add: useFocusTrap_def example_simps trap_A_def trap_B_def handleKeyDown_def
        dispatchKeyDown_def topTrap_def page_def preventDefault_def)

subsection \<open>The stack lists the active traps\<close>




subsection \<open>A top trap without focusable elements\<close>

text \<open>
  Claim C10. When every trap whose container is on top of the stack has an empty cache of
  focusable elements, a keydown passes through the handlers of all traps without any
  effect: the top trap returns because its list is empty, the others because their
  container is not on top. The event is not default-prevented and the focus is not moved,
  so the browser's default Tab navigation goes on.
\<close>

theorem empty_top_trap_handles_no_tab:
  assumes "\<forall>t \<in> set ts. topTrap s = Some (container t) \<longrightarrow> focusableElementsRef t = []"
  shows "dispatchKeyDown ts (e, s) = (e, s)"
  using assms unfolding dispatchKeyDown_def
proof (induction ts)
  case Nil
  then show ?case by simp
next
  case (Cons t ts)
  have "handleKeyDown t (e, s) = (e, s)"
  proof (cases "topTrap s = Some (container t)")
    case True
    with Cons.prems have "focusableElementsRef t = []" by simp
    then show ?thesis by (rule handleKeyDown_empty)
  next
    case False
    then show ?thesis by (rule handleKeyDown_not_top)
  qed
  with Cons show ?case by simp
qed

text \<open>
  Activating a trap on container 3, which has no focusable element, still pushes the
  container; with the focus in container 1 below, Tab is then handled by nobody.
\<close>

theorem empty_top_trap_handles_no_tab_witness:
  "activateFocusTrap example_dom default_options trap_C (page [1] (Some 12))
     = (trap_C\<lparr>trapActive := True\<rparr>, page [1, 3] (Some 12))
   \<and> focusableElementsRef (trap_C\<lparr>trapActive := True\<rparr>) = []
   \<and> dispatchKeyDown [trap_A, trap_C\<lparr>trapActive := True\<rparr>]
        (tab_key, page [1, 3] (Some 12))
       = (tab_key, page [1, 3] (Some 12))"
  using empty_top_trap_handles_no_tab
    [of "[trap_A, trap_C\<lparr>trapActive := True\<rparr>]"
        "page [1, 3] (Some 12)" tab_key]
  by (simp add: example_simps trap_A_def trap_C_def topTrap_def page_def)

section \<open>Properties of useStackedModal\<close>

lemma String_base_backdrop: "String BASE_BACKDROP_Z_INDEX = ''1040''"
  by (simp add: BASE_BACKDROP_Z_INDEX_def String_eval)

lemma setStyle_style:
  "style (setStyle el prop v d) = (style d)(el := (style d el)(prop := v))"
  "backdrops (setStyle el prop v d) = backdrops d"
  "hasDocument (setStyle el prop v d) = hasDocument d"
  by (simp_all add: setStyle_def)

lemma style_after_open:
  "style (setStyle p ''opacity'' ''0'' (setStyle p ''transition'' T d))
     = (style d)(p := (style d p)(''transition'' := T, ''opacity'' := ''0''))"
  by (simp add: setStyle_style)

lemma opened_snd:
  assumes "hasDocument d" and "backdrops d \<noteq> []"
  shows "snd (stackedLayoutEffect True True (h, d)) =
           setStyle (last (backdrops d)) ''opacity'' ''0''
             (setStyle (last (backdrops d)) ''transition'' ''opacity 150ms ease-in-out'' d)"
  using assms by (simp add: stackedLayoutEffect_def adjustBackdrop_def Let_def)

lemma opened_refs:
  assumes "hasDocument d" and "backdrops d \<noteq> []"
  shows "backdropRef (fst (stackedLayoutEffect True True (h, d))) = Some (last (backdrops d))"
    "originalBackdropZIndexRef (fst (stackedLayoutEffect True True (h, d)))
       = Some (or_else (style d (last (backdrops d)) ''zIndex'') ''1040'')"
    "originalBackdropOpacityRef (fst (stackedLayoutEffect True True (h, d)))
       = Some (or_else (style d (last (backdrops d)) ''opacity'') ''0.5'')"
    "modal (zIndexes (fst (stackedLayoutEffect True True (h, d)))) = 1060"
  using assms
  by (simp_all add: stackedLayoutEffect_def adjustBackdrop_def Let_def String_base_backdrop
      BASE_MODAL_Z_INDEX_def Z_INDEX_INCREMENT_def)

lemma cleanup_snd:
  assumes "backdropRef h = Some p" and "originalBackdropZIndexRef h = Some z"
    and "originalBackdropOpacityRef h = Some opa" and "z \<noteq> []" and "opa \<noteq> []"
  shows "snd (stackedCleanup (h, d)) =
           setStyle p ''opacity'' opa
             (setStyle p ''transition'' ''opacity 150ms ease-in-out'' (setStyle p ''zIndex'' z d))"
  using assms by (simp add: stackedCleanup_def Let_def truthy_def)

lemma style_after_close:
  "style (setStyle p ''opacity'' opa (setStyle p ''transition'' T (setStyle p ''zIndex'' z
            (setStyle p ''opacity'' ''0'' (setStyle p ''transition'' T d)))))
     = (style d)(p := (style d p)(''zIndex'' := z, ''transition'' := T, ''opacity'' := opa))"
  by (simp add: setStyle_style fun_eq_iff)

lemma or_else_nonempty: "b \<noteq> [] \<Longrightarrow> or_else a b \<noteq> []"
  by (simp add: or_else_def)

lemma unmount_open: "unmount (True, True) st = stackedCleanup st"
  by (simp add: unmount_def returnsCleanup_def)

lemma rerender_close:
  "snd (rerender (True, True) (True, False) st) = snd (stackedCleanup st)"
  by (simp add: rerender_def returnsCleanup_def stackedLayoutEffect_def)

text \<open>
  Claim C3, as amended. When a stacked modal opens and the page has a backdrop, the hook
  saves the z-index of the last backdrop of the page (or \<open>'1040'\<close> when it has none) and
  its opacity (or \<open>'0.5'\<close>), sets its transition to \<open>'opacity 150ms ease-in-out'\<close> and
  its opacity to \<open>'0'\<close>, and the modal's own style gets z-index 1060. When the modal
  closes or unmounts, that backdrop gets the saved z-index and the saved opacity, and keeps
  the transition. No other style property of that backdrop and no style of any other
  element is touched.
\<close>

theorem stacked_modal_saves_and_restores:
  assumes "hasDocument d" and "backdrops d \<noteq> []"
  shows
    "originalBackdropZIndexRef (fst (stackedLayoutEffect True True (h, d)))
       = Some (or_else (style d (last (backdrops d)) ''zIndex'') ''1040'')
   \<and> originalBackdropOpacityRef (fst (stackedLayoutEffect True True (h, d)))
       = Some (or_else (style d (last (backdrops d)) ''opacity'') ''0.5'')
   \<and> style (snd (stackedLayoutEffect True True (h, d)))
       = (style d)(last (backdrops d) :=
            (style d (last (backdrops d)))
              (''transition'' := ''opacity 150ms ease-in-out'', ''opacity'' := ''0''))
   \<and> modalStyle True (fst (stackedLayoutEffect True True (h, d))) = Some 1060
   \<and> style (snd (stackedCleanup (stackedLayoutEffect True True (h, d))))
       = (style d)(last (backdrops d) :=
            (style d (last (backdrops d)))
              (''zIndex'' := or_else (style d (last (backdrops d)) ''zIndex'') ''1040'',
               ''transition'' := ''opacity 150ms ease-in-out'',
               ''opacity'' := or_else (style d (last (backdrops d)) ''opacity'') ''0.5''))
   \<and> backdrops (snd (stackedCleanup (stackedLayoutEffect True True (h, d)))) = backdrops d
   \<and> snd (rerender (True, True) (True, False) (stackedLayoutEffect True True (h, d)))
       = snd (stackedCleanup (stackedLayoutEffect True True (h, d)))
   \<and> unmount (True, True) (stackedLayoutEffect True True (h, d))
       = stackedCleanup (stackedLayoutEffect True True (h, d))"
proof -
  let ?p = "last (backdrops d)"
  let ?z = "or_else (style d ?p ''zIndex'') ''1040''"
  let ?opa = "or_else (style d ?p ''opacity'') ''0.5''"
  let ?open = "stackedLayoutEffect True True (h, d)"
  note refs = opened_refs [OF assms, of h]
  note sd1 = opened_snd [OF assms, of h]
  have "snd (stackedCleanup (fst ?open, snd ?open)) =
      setStyle ?p ''opacity'' ?opa (setStyle ?p ''transition'' ''opacity 150ms ease-in-out''
        (setStyle ?p ''zIndex'' ?z (snd ?open)))"
    by (rule cleanup_snd [OF refs(1) refs(2) refs(3)]) (simp_all add: or_else_nonempty)
  then have closed: "snd (stackedCleanup ?open) =
      setStyle ?p ''opacity'' ?opa (setStyle ?p ''transition'' ''opacity 150ms ease-in-out''
        (setStyle ?p ''zIndex'' ?z (snd ?open)))"
    by simp
  have c1: "originalBackdropZIndexRef (fst ?open) = Some ?z" by (rule refs(2))
  have c2: "originalBackdropOpacityRef (fst ?open) = Some ?opa" by (rule refs(3))
  have c3: "style (snd ?open) = (style d)(?p := (style d ?p)
              (''transition'' := ''opacity 150ms ease-in-out'', ''opacity'' := ''0''))"
    unfolding sd1 by (rule style_after_open)
  have c4: "modalStyle True (fst ?open) = Some 1060"
    using refs(4) by (simp add: modalStyle_def)
  have c5: "style (snd (stackedCleanup ?open)) = (style d)(?p := (style d ?p)
              (''zIndex'' := ?z, ''transition'' := ''opacity 150ms ease-in-out'', ''opacity'' := ?opa))"
    unfolding closed sd1 by (rule style_after_close)
  have c6: "backdrops (snd (stackedCleanup ?open)) = backdrops d"
    unfolding closed sd1 by (simp add: setStyle_style)
  have c7: "snd (rerender (True, True) (True, False) ?open) = snd (stackedCleanup ?open)"
    by (rule rerender_close)
  have c8: "unmount (True, True) ?open = stackedCleanup ?open"
    by (rule unmount_open)
  from c1 c2 c3 c4 c5 c6 c7 c8 show ?thesis by blast
qed

theorem stacked_modal_saves_and_restores_witness:
  "hasDocument styled_backdrop_dom \<and> backdrops styled_backdrop_dom \<noteq> []
   \<and> originalBackdropZIndexRef
         (fst (stackedLayoutEffect True True (initial_stacked_modal True, styled_backdrop_dom)))
       = Some ''1051''
   \<and> style (snd (stackedLayoutEffect True True (initial_stacked_modal True, styled_backdrop_dom)))
         6 ''opacity'' = ''0''
   \<and> style (snd (stackedCleanup
         (stackedLayoutEffect True True (initial_stacked_modal True, styled_backdrop_dom))))
         6 ''opacity'' = ''0.4''
   \<and> style (snd (stackedCleanup
         (stackedLayoutEffect True True (initial_stacked_modal True, styled_backdrop_dom))))
         6 ''zIndex'' = ''1051''
   \<and> style (snd (stackedCleanup
         (stackedLayoutEffect True True (initial_stacked_modal True, styled_backdrop_dom))))
         5 = style styled_backdrop_dom 5"
  using stacked_modal_saves_and_restores [of styled_backdrop_dom "initial_stacked_modal True"]
  by (simp add: styled_backdrop_dom_def or_else_def)

text \<open>
  The styles of the parent backdrop are not the same after opening and closing: a backdrop
  without inline style ends with a transition, the z-index \<open>'1040'\<close> and the opacity
  \<open>'0.5'\<close>.
\<close>

theorem stacked_modal_leaves_transition_counterexample:
  "style plain_backdrop_dom 5 ''transition'' = []
   \<and> style plain_backdrop_dom 5 ''zIndex'' = []
   \<and> style plain_backdrop_dom 5 ''opacity'' = []
   \<and> style (snd (unmount (True, True)
         (stackedLayoutEffect True True (initial_stacked_modal True, plain_backdrop_dom))))
         5 ''transition'' = ''opacity 150ms ease-in-out''
   \<and> style (snd (unmount (True, True)
         (stackedLayoutEffect True True (initial_stacked_modal True, plain_backdrop_dom))))
         5 ''zIndex'' = ''1040''
   \<and> style (snd (unmount (True, True)
         (stackedLayoutEffect True True (initial_stacked_modal True, plain_backdrop_dom))))
         5 ''opacity'' = ''0.5''"
  by (simp add: plain_backdrop_dom_def unmount_def returnsCleanup_def stackedLayoutEffect_def
        adjustBackdrop_def stackedCleanup_def initial_stacked_modal_def Let_def truthy_def
        or_else_def setStyle_def String_base_backdrop)

text \<open>
  Claim C9. For a stacked modal, once the layout effect has run, \<open>shouldRenderBackdrop\<close>
  is true exactly when the modal is open: an open stacked modal hands its \<open>backdrop\<close> prop
  on to the Modal and so renders its own backdrop, a closed one passes \<open>false\<close>. The prop
  documentation of \<open>isStacked\<close> says the opposite.
\<close>

theorem stacked_modal_renders_backdrop:
  "shouldRenderBackdrop (fst (stackedLayoutEffect True isOpen (h, d))) = isOpen
   \<and> modalBackdrop (fst (stackedLayoutEffect True isOpen (h, d))) b
       = (if isOpen then b else Backdrop False)"
  by (simp add: stackedLayoutEffect_def adjustBackdrop_def modalBackdrop_def Let_def)

theorem stacked_modal_renders_backdrop_witness:
  "shouldRenderBackdrop
     (fst (stackedLayoutEffect True True (initial_stacked_modal True, plain_backdrop_dom)))
   \<and> \<not> shouldRenderBackdrop (initial_stacked_modal True)
   \<and> modalBackdrop
        (fst (stackedLayoutEffect True True (initial_stacked_modal True, plain_backdrop_dom)))
        BackdropUndefined = BackdropUndefined"
  using stacked_modal_renders_backdrop
    [of True "initial_stacked_modal True" plain_backdrop_dom BackdropUndefined]
  by (simp add: initial_stacked_modal_def)

section \<open>Properties of useMeasurePunchouts\<close>



















section \<open>Properties of the handlers\<close>

lemma js_call_optional: "js_call True f w = Inr (effect_of f w)"
  by (simp add: js_call_def effect_of_def split: option.split)

lemma and_then_Inr: "and_then (Inr v) f = f v"
  by (simp add: and_then_def)

lemma onHideCallback_result:
  "onHideCallback p r = Inr (r\<lparr>showState := False, world := effect_of (onHide p) (world r)\<rparr>)"
  by (simp add: onHideCallback_def Let_def js_call_optional and_then_Inr)

lemma callHandleKeydown_result:
  "callHandleKeydown p r =
     Inr (r\<lparr>world := effect_of (map_option (\<lambda>f. f (evt r)) (handleKeydown p)) (world r)\<rparr>)"
  by (simp add: callHandleKeydown_def js_call_optional and_then_Inr)

text \<open>
  Claim C8, as amended. Whatever optional callbacks are absent (\<open>onHide\<close>,
  \<open>handleCancel\<close>, \<open>handleConfirm\<close>, \<open>handleEnterKeyPress\<close>, \<open>handleKeydown\<close> of the
  modal, \<open>handleJump\<close> of the tour tip), every handler runs to completion without an
  error, an absent callback contributing nothing. What the cancel and confirm handlers do
  besides (preventing the default, closing the modal under \<open>autoCloseOnCancelButton\<close> or
  \<open>autoCloseOnConfirmButton\<close>) does not depend on which callbacks are present. The Enter
  key closes the modal only if \<open>handleConfirm\<close> is present and
  \<open>autoCloseOnConfirmButton\<close> is set, and not during composition.
\<close>

theorem handlers_complete_without_callbacks:
  "onHideCallback p r = Inr (r\<lparr>showState := False, world := effect_of (onHide p) (world r)\<rparr>)
   \<and> handleCancelCallback p r =
       Inr \<lparr> evt = preventDefault (evt r),
             showState = (if autoCloseOnCancelButton p then False else showState r),
             world = effect_of (handleCancel p)
                       (if autoCloseOnCancelButton p then effect_of (onHide p) (world r)
                        else world r) \<rparr>
   \<and> handleConfirmCallback p r =
       Inr \<lparr> evt = preventDefault (evt r),
             showState = (if autoCloseOnConfirmButton p then False else showState r),
             world = effect_of (handleConfirm p)
                       (if autoCloseOnConfirmButton p then effect_of (onHide p) (world r)
                        else world r) \<rparr>
   \<and> onEnterKeyDown p r =
       Inr \<lparr> evt = evt r,
             showState = (if key (evt r) = ''Enter'' \<and> \<not> isComposing (evt r)
                             \<and> handleConfirm p \<noteq> None \<and> autoCloseOnConfirmButton p
                          then False else showState r),
             world = (if key (evt r) = ''Enter''
                      then if isComposing (evt r) then world r
                           else effect_of (map_option (\<lambda>f. f (evt r)) (handleKeydown p))
                                  (effect_of (handleEnterKeyPress p)
                                    (if handleConfirm p \<noteq> None \<and> autoCloseOnConfirmButton p
                                     then effect_of (onHide p) (world r) else world r))
                      else effect_of (map_option (\<lambda>f. f (evt r)) (handleKeydown p)) (world r)) \<rparr>
   \<and> onJump handleJump e jumpToStep w =
       Inr (effect_of (map_option (\<lambda>f. f e jumpToStep) handleJump) w)"
proof -
  have cancel: "handleCancelCallback p r =
       Inr \<lparr> evt = preventDefault (evt r),
             showState = (if autoCloseOnCancelButton p then False else showState r),
             world = effect_of (handleCancel p)
                       (if autoCloseOnCancelButton p then effect_of (onHide p) (world r)
                        else world r) \<rparr>"
    by (simp add: handleCancelCallback_def Let_def onHideCallback_result js_call_optional and_then_Inr)
  have confirm: "handleConfirmCallback p r =
       Inr \<lparr> evt = preventDefault (evt r),
             showState = (if autoCloseOnConfirmButton p then False else showState r),
             world = effect_of (handleConfirm p)
                       (if autoCloseOnConfirmButton p then effect_of (onHide p) (world r)
                        else world r) \<rparr>"
    by (simp add: handleConfirmCallback_def Let_def onHideCallback_result js_call_optional and_then_Inr)
  have enter: "onEnterKeyDown p r =
       Inr \<lparr> evt = evt r,
             showState = (if key (evt r) = ''Enter'' \<and> \<not> isComposing (evt r)
                             \<and> handleConfirm p \<noteq> None \<and> autoCloseOnConfirmButton p
                          then False else showState r),
             world = (if key (evt r) = ''Enter''
                      then if isComposing (evt r) then world r
                           else effect_of (map_option (\<lambda>f. f (evt r)) (handleKeydown p))
                                  (effect_of (handleEnterKeyPress p)
                                    (if handleConfirm p \<noteq> None \<and> autoCloseOnConfirmButton p
                                     then effect_of (onHide p) (world r) else world r))
                      else effect_of (map_option (\<lambda>f. f (evt r)) (handleKeydown p)) (world r)) \<rparr>"
    by (simp add: onEnterKeyDown_def onHideCallback_result callHandleKeydown_result
          js_call_optional and_then_Inr)
  have jump: "onJump handleJump e jumpToStep w =
       Inr (effect_of (map_option (\<lambda>f. f e jumpToStep) handleJump) w)"
    by (simp add: onJump_def js_call_optional)
  from onHideCallback_result cancel confirm enter jump show ?thesis by blast
qed

theorem handlers_complete_without_callbacks_witness:
  "handleCancelCallback no_callbacks \<lparr> evt = enter_key, showState = True, world = 0 \<rparr>
     = Inr \<lparr> evt = enter_key\<lparr>defaultPrevented := True\<rparr>, showState = False, world = 0 \<rparr>
   \<and> handleConfirmCallback only_handleConfirm \<lparr> evt = enter_key, showState = True, world = 0 \<rparr>
     = Inr \<lparr> evt = enter_key\<lparr>defaultPrevented := True\<rparr>, showState = False, world = 1 \<rparr>
   \<and> onEnterKeyDown only_handleConfirm \<lparr> evt = tab_key, showState = True, world = 0 \<rparr>
     = Inr \<lparr> evt = tab_key, showState = True, world = 0 \<rparr>
   \<and> onJump None tab_key 3 (0::nat) = Inr 0"
proof -
  note a = handlers_complete_without_callbacks
      [where p = no_callbacks and r = "\<lparr> evt = enter_key, showState = True, world = 0 \<rparr>"
         and handleJump = "None :: (event \<Rightarrow> int \<Rightarrow> nat \<Rightarrow> nat) option"
         and e = tab_key and jumpToStep = 3 and w = "0::nat"]
  note b = handlers_complete_without_callbacks
      [where p = only_handleConfirm and r = "\<lparr> evt = enter_key, showState = True, world = 0 \<rparr>"
         and handleJump = "None :: (event \<Rightarrow> int \<Rightarrow> nat \<Rightarrow> nat) option"
         and e = tab_key and jumpToStep = 3 and w = "0::nat"]
  note c = handlers_complete_without_callbacks
      [where p = only_handleConfirm and r = "\<lparr> evt = tab_key, showState = True, world = 0 \<rparr>"
         and handleJump = "None :: (event \<Rightarrow> int \<Rightarrow> nat \<Rightarrow> nat) option"
         and e = tab_key and jumpToStep = 3 and w = "0::nat"]
  have 1: "handleCancelCallback no_callbacks \<lparr> evt = enter_key, showState = True, world = 0 \<rparr>
     = Inr \<lparr> evt = enter_key\<lparr>defaultPrevented := True\<rparr>, showState = False, world = 0 \<rparr>"
    using a by (simp add: no_callbacks_def effect_of_def preventDefault_def)
  have 2: "handleConfirmCallback only_handleConfirm \<lparr> evt = enter_key, showState = True, world = 0 \<rparr>
     = Inr \<lparr> evt = enter_key\<lparr>defaultPrevented := True\<rparr>, showState = False, world = 1 \<rparr>"
    using b by (simp add: no_callbacks_def only_handleConfirm_def effect_of_def preventDefault_def)
  have 3: "onEnterKeyDown only_handleConfirm \<lparr> evt = tab_key, showState = True, world = 0 \<rparr>
     = Inr \<lparr> evt = tab_key, showState = True, world = 0 \<rparr>"
    using c by (simp add: no_callbacks_def only_handleConfirm_def effect_of_def tab_key_def)
  have 4: "onJump None tab_key 3 (0::nat) = Inr 0"
    using a by (simp add: effect_of_def)
  from 1 2 3 4 show ?thesis by blast
qed

text \<open>
  With \<open>autoCloseOnConfirmButton\<close> set, the Enter key leaves the modal open when
  \<open>handleConfirm\<close> is absent and closes it when \<open>handleConfirm\<close> is present, although the
  handler never calls \<open>handleConfirm\<close>: the absence of this callback changes the
  auto-closing.
\<close>

theorem enter_key_needs_handleConfirm_counterexample:
  "autoCloseOnConfirmButton no_callbacks
   \<and> autoCloseOnConfirmButton only_handleConfirm
   \<and> onEnterKeyDown no_callbacks \<lparr> evt = enter_key, showState = True, world = 0 \<rparr>
     = Inr \<lparr> evt = enter_key, showState = True, world = 0 \<rparr>
   \<and> onEnterKeyDown only_handleConfirm \<lparr> evt = enter_key, showState = True, world = 0 \<rparr>
     = Inr \<lparr> evt = enter_key, showState = False, world = 0 \<rparr>"
  by (simp add: no_callbacks_def only_handleConfirm_def enter_key_def onEnterKeyDown_def
        onHideCallback_def callHandleKeydown_def js_call_def and_then_def Let_def)

section \<open>Properties of TourTipBackdrop\<close>

lemma crossing_horizontal: "crossing (x1, y) (x2, y) p = 0"
  by (simp add: crossing_def)

lemma crossing_vertical:
  "crossing (x, y1) (x, y2) (px, py) =
     (if y1 \<le> py \<and> py < y2 \<and> px < x then 1
      else if y2 \<le> py \<and> py < y1 \<and> px < x then - 1 else 0)"
  by (auto simp add: crossing_def isLeft_def zero_less_mult_iff mult_less_0_iff)

lemma vertices_as_path:
  "vertices (Some po) =
     map vertex_text
       (punch_out_path (template (po_x po)) (template (po_y po)) (po_width po) (po_height po))"
  by (simp add: vertices_def punch_out_path_def vertex_text_def Let_def String_eval)

text \<open>The twelve points of the path, once its four lengths have pixel values.\<close>

lemma resolve_punch_out_path:
  assumes "used x = Some X" and "used y = Some Y"
    and "used width = Some W" and "used height = Some H"
  shows "resolve_path used (vw, vh) (punch_out_path x y width height) =
           Some [ (0, 0), (0, vh), (vw, vh), (vw, 0), (X, 0), (X, Y), (X + W, Y),
                  (X + W, Y + H), (X, Y + H), (X, Y), (X, 0), (0, 0) ]"
  using assms by (simp add: punch_out_path_def resolve_vertex_def)

lemma winding_punch_out_points:
  assumes "0 \<le> W" and "0 \<le> H"
    and "0 \<le> i" and "i < vw" and "0 \<le> j" and "j < vh"
  shows "winding_number
           (map (\<lambda>v. (2 * fst v, 2 * snd v))
              [ (0, 0), (0, vh), (vw, vh), (vw, 0), (X, 0), (X, Y), (X + W, Y),
                (X + W, Y + H), (X, Y + H), (X, Y), (X, 0), (0, 0) ])
           (2 * i + 1, 2 * j + 1)
         = (if X \<le> i \<and> i < X + W \<and> Y \<le> j \<and> j < Y + H then 0 else - 1)"
  using assms
  by (simp add: winding_number_def edges_def crossing_horizontal crossing_vertical)

lemma darkens_punch_out_path:
  assumes "used x = Some X" and "used y = Some Y"
    and "used width = Some W" and "used height = Some H"
    and "0 \<le> W" and "0 \<le> H"
    and "0 \<le> i" and "i < vw" and "0 \<le> j" and "j < vh"
  shows "backdrop_darkens used (vw, vh) (Some (punch_out_path x y width height)) (i, j)
           \<longleftrightarrow> \<not> (X \<le> i \<and> i < X + W \<and> Y \<le> j \<and> j < Y + H)"
  using winding_punch_out_points [OF assms(5-10), of X Y]
  by (simp add: backdrop_darkens_def resolve_punch_out_path [OF assms(1-4)] darkened_def)


text \<open>
  Claim C7, as amended. When shown, the component renders the backdrop with the clip path
  \<open>polygon(...)\<close> of exactly 12 vertices for every punch-out, the printed form of the path
  around the viewport and the rectangle (an absent \<open>x\<close> or \<open>y\<close> is printed as
  \<open>undefined\<close>), and with no clip path when there is no punch-out, so that the whole
  backdrop darkens. When the punch-out has its \<open>x\<close> and \<open>y\<close>, its four texts are lengths
  and its width and height are not negative, the polygon, read by the browser in a viewport
  of \<open>vw\<close> by \<open>vh\<close> pixels, darkens a pixel of the viewport exactly when the pixel is
  outside the rectangle from \<open>(x, y)\<close> to \<open>(x + width, y + height)\<close>.
\<close>

theorem TourTipBackdrop_clip_path:
  "TourTipBackdrop False overlayPunchOut interactivePunchOut transparent = None
   \<and> TourTipBackdrop True overlayPunchOut interactivePunchOut transparent
       = Some ((if interactivePunchOut then [] else [OverlayDiv])
               @ [BackdropDiv
                    (''tour-tip__backdrop ''
                       @ (if transparent then ''tour-tip__backdrop--transparent'' else []))
                    (clipPath overlayPunchOut)])
   \<and> clipPath None = None
   \<and> backdrop_darkens used (vw, vh) None (i, j)
   \<and> length (vertices (Some po)) = 12
   \<and> clipPath (Some po) = Some (''polygon('' @ join '', '' (vertices (Some po)) @ '')'')
   \<and> vertices (Some po)
       = map vertex_text
           (punch_out_path (template (po_x po)) (template (po_y po)) (po_width po) (po_height po))
   \<and> (po_x po = Some x \<and> po_y po = Some y
        \<and> used x = Some X \<and> used y = Some Y
        \<and> used (po_width po) = Some W \<and> used (po_height po) = Some H
        \<and> 0 \<le> W \<and> 0 \<le> H \<and> 0 \<le> i \<and> i < vw \<and> 0 \<le> j \<and> j < vh
      \<longrightarrow> (backdrop_darkens used (vw, vh)
             (Some (punch_out_path (template (po_x po)) (template (po_y po))
                      (po_width po) (po_height po))) (i, j)
           \<longleftrightarrow> \<not> (X \<le> i \<and> i < X + W \<and> Y \<le> j \<and> j < Y + H)))"
proof -
  have hidden: "TourTipBackdrop False overlayPunchOut interactivePunchOut transparent = None"
    by (simp add: TourTipBackdrop_def)
  have shown: "TourTipBackdrop True overlayPunchOut interactivePunchOut transparent
       = Some ((if interactivePunchOut then [] else [OverlayDiv])
               @ [BackdropDiv
                    (''tour-tip__backdrop ''
                       @ (if transparent then ''tour-tip__backdrop--transparent'' else []))
                    (clipPath overlayPunchOut)])"
    by (simp add: TourTipBackdrop_def Let_def)
  have none: "clipPath None = None"
    by (simp add: clipPath_def vertices_def)
  have unclipped: "backdrop_darkens used (vw, vh) None (i, j)"
    by (simp add: backdrop_darkens_def)
  have len: "length (vertices (Some po)) = 12"
    by (simp add: vertices_def Let_def)
  then have clip: "clipPath (Some po) = Some (''polygon('' @ join '', '' (vertices (Some po)) @ '')'')"
    by (simp add: clipPath_def)
  have dark: "backdrop_darkens used (vw, vh)
             (Some (punch_out_path (template (po_x po)) (template (po_y po))
                      (po_width po) (po_height po))) (i, j)
           \<longleftrightarrow> \<not> (X \<le> i \<and> i < X + W \<and> Y \<le> j \<and> j < Y + H)"
    if "po_x po = Some x" and "po_y po = Some y"
      and "used x = Some X" and "used y = Some Y"
      and "used (po_width po) = Some W" and "used (po_height po) = Some H"
      and "0 \<le> W" and "0 \<le> H" and "0 \<le> i" and "i < vw" and "0 \<le> j" and "j < vh"
  proof -
    from that(1,2) have t: "template (po_x po) = x" "template (po_y po) = y"
      by (simp_all add: template_def)
    show ?thesis
      unfolding t using that(3-12) by (rule darkens_punch_out_path)
  qed
  from hidden shown none unclipped len clip vertices_as_path [of po] dark
  show ?thesis by blast
qed

text \<open>
  The punch-out at \<open>(10, 20)\<close> of 30 by 40 pixels in a viewport of 100 by 100: what is
  rendered, a pixel inside the rectangle and a pixel outside.
\<close>

theorem TourTipBackdrop_clip_path_witness:
  "TourTipBackdrop True (Some example_punch_out) False False
     = Some [OverlayDiv,
             BackdropDiv ''tour-tip__backdrop ''
               (Some (''polygon(0% 0%, 0% 100%, 100% 100%, 100% 0%, 10px 0%, 10px 20px, ''
                      @ ''calc(10px + 30px) 20px, calc(10px + 30px) calc(20px + 40px), ''
                      @ ''10px calc(20px + 40px), 10px 20px, 10px 0%, 0% 0%)''))]
   \<and> \<not> backdrop_darkens example_used (100, 100)
         (Some (punch_out_path ''10px'' ''20px'' ''30px'' ''40px'')) (15, 25)
   \<and> backdrop_darkens example_used (100, 100)
         (Some (punch_out_path ''10px'' ''20px'' ''30px'' ''40px'')) (5, 25)"
proof -
  note a = TourTipBackdrop_clip_path
    [where po = example_punch_out and overlayPunchOut = "Some example_punch_out"
       and interactivePunchOut = False and transparent = False
       and used = example_used and x = "''10px''" and y = "''20px''"
       and X = 10 and Y = 20 and W = 30 and H = 40
       and i = 15 and j = 25 and vw = 100 and vh = 100]
  note b = TourTipBackdrop_clip_path
    [where po = example_punch_out and overlayPunchOut = "Some example_punch_out"
       and interactivePunchOut = False and transparent = False
       and used = example_used and x = "''10px''" and y = "''20px''"
       and X = 10 and Y = 20 and W = 30 and H = 40
       and i = 5 and j = 25 and vw = 100 and vh = 100]
  have 1: "TourTipBackdrop True (Some example_punch_out) False False
     = Some [OverlayDiv,
             BackdropDiv ''tour-tip__backdrop ''
               (Some (''polygon(0% 0%, 0% 100%, 100% 100%, 100% 0%, 10px 0%, 10px 20px, ''
                      @ ''calc(10px + 30px) 20px, calc(10px + 30px) calc(20px + 40px), ''
                      @ ''10px calc(20px + 40px), 10px 20px, 10px 0%, 0% 0%)''))]"
    using a
    by (simp add: example_punch_out_def template_def punch_out_path_def vertex_text_def String_eval)
  have 2: "\<not> backdrop_darkens example_used (100, 100)
         (Some (punch_out_path ''10px'' ''20px'' ''30px'' ''40px'')) (15, 25)"
    using a by (simp add: example_punch_out_def example_used_def template_def)
  have 3: "backdrop_darkens example_used (100, 100)
         (Some (punch_out_path ''10px'' ''20px'' ''30px'' ''40px'')) (5, 25)"
    using b by (simp add: example_punch_out_def example_used_def template_def)
  from 1 2 3 show ?thesis by blast
qed

text \<open>
  Not every punch-out is cut out. Without \<open>x\<close> the polygon holds the text \<open>undefined\<close>,
  which is no length: the clip path is not valid and the backdrop darkens every pixel.
  With the width \<open>-30px\<close> at \<open>x = 40px\<close> the rectangle from \<open>(40, 20)\<close> to \<open>(10, 60)\<close> is
  drawn in the direction of the outer path, and the pixel \<open>(15, 25)\<close> inside it is
  darkened.
\<close>

theorem TourTipBackdrop_undefined_counterexample:
  "clipPath (Some punch_out_without_x)
     = Some (''polygon(0% 0%, 0% 100%, 100% 100%, 100% 0%, undefined 0%, undefined 20px, ''
             @ ''calc(undefined + 30px) 20px, calc(undefined + 30px) calc(20px + 40px), ''
             @ ''undefined calc(20px + 40px), undefined 20px, undefined 0%, 0% 0%)'')
   \<and> vertices (Some punch_out_without_x)
       = map vertex_text (punch_out_path ''undefined'' ''20px'' ''30px'' ''40px'')
   \<and> example_used ''undefined'' = None
   \<and> backdrop_darkens example_used (100, 100)
         (Some (punch_out_path ''undefined'' ''20px'' ''30px'' ''40px'')) (15, 25)
   \<and> vertices (Some punch_out_negative_width)
       = map vertex_text (punch_out_path ''40px'' ''20px'' ''-30px'' ''40px'')
   \<and> example_used ''-30px'' = Some (- 30)
   \<and> backdrop_darkens example_used (100, 100)
         (Some (punch_out_path ''40px'' ''20px'' ''-30px'' ''40px'')) (15, 25)"
  by (simp add: punch_out_without_x_def punch_out_negative_width_def clipPath_def vertices_def
        template_def Let_def punch_out_path_def vertex_text_def String_eval example_used_def
        backdrop_darkens_def resolve_vertex_def darkened_def winding_number_def edges_def
        crossing_horizontal crossing_vertical)

end
